theory Spec2Isabelle
  imports Complex_Main "HOL-Library.Word"
begin

unbundle bit_operations_syntax

section \<open>T962a reflow oven controller: data points, plot, profile executor\<close>

text \<open>
  The embedding follows three source files:
  \<^item> \<^verbatim>\<open>Software/SMT_Oven_RTOS/Sources/dataPoint.h\<close> (class \<^verbatim>\<open>DataPoint\<close>, enum \<^verbatim>\<open>State\<close>),
  \<^item> \<^verbatim>\<open>Firmware/SMT_Oven_RTOS/Sources/max31855.h\<close> (class \<^verbatim>\<open>Max31855\<close>),
  \<^item> \<^verbatim>\<open>Firmware/SMT_Oven_RTOS/Sources/runProfile.cpp\<close> (namespace \<^verbatim>\<open>RunProfile\<close>: its own
    \<^verbatim>\<open>DataPoint\<close>, \<^verbatim>\<open>Plot\<close>, \<^verbatim>\<open>Draw::calculate\<close>, \<^verbatim>\<open>handler\<close>, \<^verbatim>\<open>thermocoupleStatus\<close>,
    \<^verbatim>\<open>runProfile\<close>).

  Numbers. A C++ \<^verbatim>\<open>float\<close> is idealised as a \<^typ>\<open>real\<close>: rounding of float arithmetic
  is not modelled. Where the source can produce \<^verbatim>\<open>NAN\<close> the value is a \<^typ>\<open>real option\<close>
  and \<^term>\<open>None\<close> stands for \<^verbatim>\<open>NAN\<close>. The fixed-width fields \<^verbatim>\<open>uint8_t\<close> and \<^verbatim>\<open>uint16_t\<close> are
  words. The \<^verbatim>\<open>int\<close> counters (\<^verbatim>\<open>time\<close>, \<^verbatim>\<open>timeout\<close>, the start-of-phase times) are
  \<^typ>\<open>int\<close>: they advance by one per second from small values, and signed overflow has no
  defined behaviour in C++ that could be modelled.
\<close>

subsection \<open>Enumerations\<close>

text \<open>\<^verbatim>\<open>enum State\<close> of dataPoint.h, in declaration order.\<close>

datatype State =
  s_off | s_fail | s_init | s_preheat | s_soak | s_ramp_up | s_dwell | s_ramp_down
  | s_complete | s_manual

text \<open>
  \<^verbatim>\<open>enum Max31855::ThermocoupleStatus\<close>: the enumerators count from 0 except
  \<^verbatim>\<open>TH_DISABLED=0b111\<close>. \<open>status_code\<close> is the integer value of an enumerator, which is
  what the 3-bit status fields of a data point store.
\<close>

datatype ThermocoupleStatus =
  TH_ENABLED | TH_OPEN | TH_SHORT_VCC | TH_SHORT_GND | TH_MISSING | TH_DISABLED

fun status_code :: "ThermocoupleStatus \<Rightarrow> 16 word" where
  "status_code TH_ENABLED = 0"
| "status_code TH_OPEN = 1"
| "status_code TH_SHORT_VCC = 2"
| "status_code TH_SHORT_GND = 3"
| "status_code TH_MISSING = 4"
| "status_code TH_DISABLED = 7"

subsection \<open>dataPoint.h: class DataPoint\<close>

definition NUM_THERMOCOUPLES :: nat where
  "NUM_THERMOCOUPLES = 4"

definition FIXED_POINT_SCALE :: real where
  "FIXED_POINT_SCALE = 100"

definition THERMO_STATUS_OFFSET :: nat where
  "THERMO_STATUS_OFFSET = 4"

definition THERMO_STATUS_WIDTH :: nat where
  "THERMO_STATUS_WIDTH = 3"

definition THERMO_STATUS_MASK :: "16 word" where
  "THERMO_STATUS_MASK = push_bit 3 1 - 1"

definition STATE_MASK :: "16 word" where
  "STATE_MASK = 0xF"

text \<open>
  \<^verbatim>\<open>round\<close> of \<^verbatim>\<open>math.h\<close> rounds halfway cases away from zero.
\<close>

definition c_round :: "real \<Rightarrow> int" where
  "c_round x = (if 0 \<le> x then \<lfloor>x + 1 / 2\<rfloor> else \<lceil>x - 1 / 2\<rceil>)"

text \<open>
  Storing a temperature: \<^verbatim>\<open>round(temp*FIXED_POINT_SCALE)\<close> converted to \<^verbatim>\<open>uint16_t\<close>.
  C++ defines the conversion only when the rounded value lies in \<open>0..65535\<close>; the
  model reduces it modulo \<open>2^16\<close>, and the theorems below use it inside the range only.
\<close>

definition to_fixed :: "real \<Rightarrow> 16 word" where
  "to_fixed temp = word_of_int (c_round (temp * FIXED_POINT_SCALE))"

text \<open>
  The fields of the class. \<open>fThermocouples\<close> is the array
  \<^verbatim>\<open>uint16_t fThermocouples[NUM_THERMOCOUPLES]\<close>, a list of length 4.
\<close>

record DataPoint =
  fState_status :: "16 word"
  fHeater :: "8 word"
  fFan :: "8 word"
  fTargetTemp :: "16 word"
  fThermocouples :: "16 word list"

text \<open>The constructor \<^verbatim>\<open>DataPoint()\<close>: every field zero.\<close>

definition DataPoint_new :: DataPoint where
  "DataPoint_new =
     \<lparr>fState_status = 0, fHeater = 0, fFan = 0, fTargetTemp = 0,
      fThermocouples = [0, 0, 0, 0]\<rparr>"

text \<open>
  \<^verbatim>\<open>getStatus(index)\<close> returns
  \<^verbatim>\<open>(fState_status>>(THERMO_STATUS_WIDTH*index+THERMO_STATUS_OFFSET))&THERMO_STATUS_MASK\<close>
  cast to the enum; the model returns the 3-bit code, since the codes 5 and 6 name no
  enumerator.
\<close>

definition getStatus :: "DataPoint \<Rightarrow> nat \<Rightarrow> 16 word" where
  "getStatus dp index =
     drop_bit (THERMO_STATUS_WIDTH * index + THERMO_STATUS_OFFSET) (fState_status dp)
       AND THERMO_STATUS_MASK"

definition setStatus :: "nat \<Rightarrow> ThermocoupleStatus \<Rightarrow> DataPoint \<Rightarrow> DataPoint" where
  "setStatus index status dp =
     dp\<lparr>fState_status :=
          (fState_status dp AND
             NOT (push_bit (THERMO_STATUS_WIDTH * index + THERMO_STATUS_OFFSET)
                    THERMO_STATUS_MASK))
          OR push_bit (THERMO_STATUS_WIDTH * index + THERMO_STATUS_OFFSET)
               (status_code status AND THERMO_STATUS_MASK)\<rparr>"

text \<open>
  \<^verbatim>\<open>getTemperature(index, temperature)\<close>: the out-parameter is
  \<^verbatim>\<open>fThermocouples[index]/FIXED_POINT_SCALE\<close>, the result the status.
\<close>

definition getTemperature :: "DataPoint \<Rightarrow> nat \<Rightarrow> real \<times> 16 word" where
  "getTemperature dp index =
     (real (unat (fThermocouples dp ! index)) / FIXED_POINT_SCALE, getStatus dp index)"

definition setTemperature :: "nat \<Rightarrow> real \<Rightarrow> DataPoint \<Rightarrow> DataPoint" where
  "setTemperature index temperature dp =
     dp\<lparr>fThermocouples := (fThermocouples dp)[index := to_fixed temperature]\<rparr>"

text \<open>
  \<^verbatim>\<open>setThermocouplePoint(thermoCouples, status)\<close>: the loop over the four indices, each
  round setting the temperature and then the status of one channel.
\<close>

definition setThermocouplePoint ::
    "real list \<Rightarrow> ThermocoupleStatus list \<Rightarrow> DataPoint \<Rightarrow> DataPoint" where
  "setThermocouplePoint thermoCouples statuses dp =
     fold (\<lambda>index dp'. setStatus index (statuses ! index)
                         (setTemperature index (thermoCouples ! index) dp'))
       [0..<NUM_THERMOCOUPLES] dp"

text \<open>
  \<^verbatim>\<open>getAverageTemperature()\<close>. The loop body over \<^verbatim>\<open>index\<close> updates the two locals
  \<^verbatim>\<open>average\<close> and \<^verbatim>\<open>numTemps\<close>; the loop runs over \<open>0..<NUM_THERMOCOUPLES\<close>. The result
  \<^term>\<open>None\<close> is \<^verbatim>\<open>NAN\<close>.
\<close>

definition average_body :: "DataPoint \<Rightarrow> nat \<Rightarrow> real \<times> int \<Rightarrow> real \<times> int" where
  "average_body dp index acc =
     (case acc of (average, numTemps) \<Rightarrow>
        if getStatus dp index = status_code TH_ENABLED
        then (average + real (unat (fThermocouples dp ! index)), numTemps + 1)
        else (average, numTemps))"

definition getAverageTemperature :: "DataPoint \<Rightarrow> real option" where
  "getAverageTemperature dp =
     (case fold (average_body dp) [0..<NUM_THERMOCOUPLES] (0, 0) of
        (average, numTemps) \<Rightarrow>
          if numTemps = 0 then None
          else Some ((average / FIXED_POINT_SCALE) / real_of_int numTemps))"

subsection \<open>runProfile.cpp: struct RunProfile::DataPoint\<close>

text \<open>
  The firmware's own data point keeps a bit mask of the active thermocouples instead of
  per-channel status codes. Its \<^verbatim>\<open>NUM_THERMOCOUPLES\<close> is the length of the array
  \<^verbatim>\<open>temperatureSensors\<close>, which \<^verbatim>\<open>monitor\<close> and \<^verbatim>\<open>logger\<close> index by 0..3.
\<close>

record RP_DataPoint =
  dp_state :: State
  heater :: "8 word"
  fan :: "8 word"
  activeThermocouples :: "8 word"
  target :: "16 word"
  thermocouples :: "16 word list"

definition isActive :: "RP_DataPoint \<Rightarrow> nat \<Rightarrow> bool" where
  "isActive dp index = (activeThermocouples dp AND push_bit index 1 \<noteq> 0)"

definition RP_average_body :: "RP_DataPoint \<Rightarrow> nat \<Rightarrow> real \<times> int \<Rightarrow> real \<times> int" where
  "RP_average_body dp index acc =
     (case acc of (average, numTemps) \<Rightarrow>
        if isActive dp index
        then (average + real (unat (thermocouples dp ! index)), numTemps + 1)
        else (average, numTemps))"

definition averageTemperature :: "RP_DataPoint \<Rightarrow> real option" where
  "averageTemperature dp =
     (case fold (RP_average_body dp) [0..<NUM_THERMOCOUPLES] (0, 0) of
        (average, numTemps) \<Rightarrow>
          if numTemps = 0 then None
          else Some ((average / FIXED_POINT_SCALE) / real_of_int numTemps))"

definition setTarget :: "real \<Rightarrow> RP_DataPoint \<Rightarrow> RP_DataPoint" where
  "setTarget temp dp = dp\<lparr>target := to_fixed temp\<rparr>"

definition getTarget :: "RP_DataPoint \<Rightarrow> real" where
  "getTarget dp = real (unat (target dp)) / FIXED_POINT_SCALE"

text \<open>
  \<^verbatim>\<open>DataPoint::addThermocouplePoint(temp, active)\<close>: stores the mask, then converts the
  first \<^verbatim>\<open>NUM_THERMOCOUPLES\<close> entries of \<^verbatim>\<open>temp\<close>.
\<close>

definition DataPoint_addThermocouplePoint ::
    "real list \<Rightarrow> 8 word \<Rightarrow> RP_DataPoint \<Rightarrow> RP_DataPoint" where
  "DataPoint_addThermocouplePoint temp active dp =
     dp\<lparr>activeThermocouples := active,
        thermocouples := map (\<lambda>index. to_fixed (temp ! index)) [0..<NUM_THERMOCOUPLES]\<rparr>"

subsection \<open>runProfile.cpp: struct Plot\<close>

definition MAX_PROFILE_TIME :: int where
  "MAX_PROFILE_TIME = 9 * 60"

text \<open>
  \<open>data\<close> is the array \<^verbatim>\<open>DataPoint data[MAX_PROFILE_TIME]\<close>, a list of length 540.
\<close>

record Plot =
  data :: "RP_DataPoint list"
  lastValid :: int
  marker :: int
  liveDataPresent :: bool

text \<open>
  The two add operations test \<^verbatim>\<open>time>=MAX_PROFILE_TIME\<close> only. A negative \<^verbatim>\<open>time\<close> passes
  the test and \<^verbatim>\<open>data[time]\<close> then lies before the array: that access is the error value
  \<open>OutOfBounds\<close> of the model.
\<close>

datatype fault = OutOfBounds

definition addTargetPoint :: "int \<Rightarrow> real \<Rightarrow> Plot \<Rightarrow> fault + Plot" where
  "addTargetPoint time temp pl =
     (if time \<ge> MAX_PROFILE_TIME then Inr pl
      else
        let pl1 = (if time > lastValid pl then pl\<lparr>lastValid := time\<rparr> else pl)
        in if time < 0 then Inl OutOfBounds
           else Inr (pl1\<lparr>data := (data pl1)[nat time := setTarget temp (data pl1 ! nat time)]\<rparr>))"

definition addThermocouplePoint ::
    "int \<Rightarrow> real list \<Rightarrow> 8 word \<Rightarrow> Plot \<Rightarrow> fault + Plot" where
  "addThermocouplePoint time temps active pl =
     (if time \<ge> MAX_PROFILE_TIME then Inr pl
      else
        let pl1 = pl\<lparr>liveDataPresent := True\<rparr>;
            pl2 = (if time > lastValid pl1 then pl1\<lparr>lastValid := time\<rparr> else pl1)
        in if time < 0 then Inl OutOfBounds
           else Inr (pl2\<lparr>data := (data pl2)
                       [nat time := DataPoint_addThermocouplePoint temps active
                                      (data pl2 ! nat time)]\<rparr>))"

text \<open>
  \<^verbatim>\<open>reset()\<close>: \<^verbatim>\<open>memset(data, 0, sizeof(data))\<close> makes every field of every point zero;
  the \<^verbatim>\<open>State\<close> with value 0 is \<^verbatim>\<open>s_off\<close>.
\<close>

definition zero_point :: RP_DataPoint where
  "zero_point =
     \<lparr>dp_state = s_off, heater = 0, fan = 0, activeThermocouples = 0, target = 0,
      thermocouples = replicate NUM_THERMOCOUPLES 0\<rparr>"

definition reset :: "Plot \<Rightarrow> Plot" where
  "reset pl =
     pl\<lparr>data := replicate (nat MAX_PROFILE_TIME) zero_point,
        lastValid := 0, marker := 0, liveDataPresent := False\<rparr>"

definition getLastValid :: "Plot \<Rightarrow> int" where
  "getLastValid pl = lastValid pl"

definition isLiveDataPresent :: "Plot \<Rightarrow> bool" where
  "isLiveDataPresent pl = liveDataPresent pl"

subsection \<open>max31855.h: class Max31855\<close>

text \<open>
  The part of a sensor object that a reading depends on: the four bytes the SPI transfer
  returned, the non-volatile \<^verbatim>\<open>offset\<close> and the non-volatile \<^verbatim>\<open>enabled\<close> flag.
\<close>

record Max31855 =
  rx0 :: "8 word"
  rx1 :: "8 word"
  rx2 :: "8 word"
  rx3 :: "8 word"
  offset :: int
  enabled :: bool

text \<open>
  A reading: the two out-parameters (\<^term>\<open>None\<close> is \<^verbatim>\<open>NAN\<close>) and the returned status.
\<close>

record reading =
  r_temperature :: "real option"
  r_coldReference :: "real option"
  r_status :: ThermocoupleStatus

text \<open>
  \<^verbatim>\<open>(int16_t)((hi<<8)|lo)\<close>, and \<^verbatim>\<open>>>\<close> on the promoted signed value as an arithmetic
  shift (a division rounding down).
\<close>

definition int16_of :: "8 word \<Rightarrow> 8 word \<Rightarrow> int" where
  "int16_of hi lo = sint (push_bit 8 (ucast hi) OR ucast lo :: 16 word)"

text \<open>
  \<^verbatim>\<open>getReading\<close>. The comparison \<^verbatim>\<open>rawStatus == 0x111\<close> is kept as written: \<open>0x111\<close>
  is hexadecimal.
\<close>

definition getReading :: "Max31855 \<Rightarrow> reading" where
  "getReading s =
     (let temperature0 = real_of_int (int16_of (rx0 s) (rx1 s) div 4) / 4 + real_of_int (offset s);
          coldReference0 = real_of_int (int16_of (rx2 s) (rx3 s) div 16) / 16;
          rawStatus = uint (rx3 s AND 0x07);
          temperature1 = (if rawStatus \<noteq> 0 then None else Some temperature0)
      in if rawStatus = 0x111
         then \<lparr>r_temperature = temperature1, r_coldReference = None, r_status = TH_MISSING\<rparr>
         else if rawStatus AND 1 \<noteq> 0
         then \<lparr>r_temperature = temperature1, r_coldReference = Some coldReference0, r_status = TH_OPEN\<rparr>
         else if rawStatus AND 2 \<noteq> 0
         then \<lparr>r_temperature = temperature1, r_coldReference = Some coldReference0,
               r_status = TH_SHORT_GND\<rparr>
         else if rawStatus AND 4 \<noteq> 0
         then \<lparr>r_temperature = temperature1, r_coldReference = Some coldReference0,
               r_status = TH_SHORT_VCC\<rparr>
         else if \<not> enabled s
         then \<lparr>r_temperature = temperature1, r_coldReference = Some coldReference0,
               r_status = TH_DISABLED\<rparr>
         else \<lparr>r_temperature = temperature1, r_coldReference = Some coldReference0,
               r_status = TH_ENABLED\<rparr>)"

definition getEnabledReading :: "Max31855 \<Rightarrow> reading" where
  "getEnabledReading s =
     (let r = getReading s
      in if r_status r = TH_DISABLED then r\<lparr>r_temperature := Some 0\<rparr> else r)"

subsection \<open>runProfile.cpp: thermocoupleStatus\<close>

text \<open>
  One pass of the loop over the sensors, without the LCD output. The loop fills the array
  \<^verbatim>\<open>temperatures\<close> and the mask \<^verbatim>\<open>activeThermocouples\<close>, which are then handed to
  \<^verbatim>\<open>RunProfile::plot.addThermocouplePoint\<close>. The local \<^verbatim>\<open>temperature\<close> is copied into
  \<^verbatim>\<open>temperatures[t]\<close> before the status branches, which set the local to 0 for every status
  other than \<^verbatim>\<open>TH_ENABLED\<close>; the local is afterwards only formatted into the buffer
  \<^verbatim>\<open>buff2\<close>, which is not used. \<open>formatted\<close> collects those values.
\<close>

record thermocouple_scan =
  temperatures :: "real option list"
  scan_active :: "8 word"
  formatted :: "real option list"

definition scan_body :: "Max31855 list \<Rightarrow> nat \<Rightarrow> thermocouple_scan \<Rightarrow> thermocouple_scan" where
  "scan_body sensors t acc =
     (let r = getReading (sensors ! t);
          acc1 = acc\<lparr>temperatures := (temperatures acc)[t := r_temperature r]\<rparr>
      in if status_code (r_status r) AND 0x7 = 0
         then acc1\<lparr>scan_active := scan_active acc1 OR push_bit t 1,
                   formatted := (formatted acc1)[t := r_temperature r]\<rparr>
         else if status_code (r_status r) AND 0x7 \<noteq> 7
         then acc1\<lparr>formatted := (formatted acc1)[t := Some 0]\<rparr>
         else acc1\<lparr>formatted := (formatted acc1)[t := Some 0]\<rparr>)"

definition thermocoupleStatus :: "Max31855 list \<Rightarrow> thermocouple_scan" where
  "thermocoupleStatus sensors =
     fold (scan_body sensors) [0..<NUM_THERMOCOUPLES]
       \<lparr>temperatures = replicate NUM_THERMOCOUPLES None, scan_active = 0x00,
        formatted = replicate NUM_THERMOCOUPLES None\<rparr>"

subsection \<open>Solder profiles\<close>

text \<open>
  Modelled from the spec: the declaration of \<^verbatim>\<open>NvSolderProfile\<close> (solderProfiles.h) is not
  among the sources. The record has the parameters that section 3 of the spec lists and
  that runProfile.cpp reads: the slopes (degrees per tick) and the temperatures (degrees
  Celsius) are numbers, the durations are counts of ticks. The soak phase interpolates
  linearly between \<open>soakTemp1\<close> and \<open>soakTemp2\<close> (section 4.2), so the quotient in
  \<^verbatim>\<open>(time-startOfSoakTime)*(soakTemp2-soakTemp1)/soakTime\<close> is a division of numbers. Were
  the three fields of an integer type, C++ would truncate that quotient; at the end of the
  soak time, where the quotient is \<open>soakTemp2 - soakTemp1\<close>, both readings agree. A soak
  time of 0, for which the source divides by zero, is outside the model.
\<close>

record NvSolderProfile =
  ramp1Slope :: real
  soakTemp1 :: real
  soakTemp2 :: real
  soakTime :: int
  ramp2Slope :: real
  peakTemp :: real
  peakDwell :: int
  rampDownSlope :: real

subsection \<open>runProfile.cpp: Draw::calculate\<close>

text \<open>
  The variables of namespace \<^verbatim>\<open>Draw\<close> (\<^verbatim>\<open>state\<close>, \<^verbatim>\<open>time\<close>, \<^verbatim>\<open>setpoint\<close>) and the two
  function-local statics of \<^verbatim>\<open>calculate\<close>.
\<close>

record Draw =
  Draw_state :: State
  Draw_time :: int
  Draw_setpoint :: real
  Draw_startOfSoakTime :: int
  Draw_startOfDwellTime :: int

text \<open>
  One call of \<^verbatim>\<open>calculate(profile)\<close>. The \<^verbatim>\<open>switch\<close> has no case for \<^verbatim>\<open>s_init\<close>, which
  therefore only advances the time.
\<close>

definition calculate :: "NvSolderProfile \<Rightarrow> Draw \<Rightarrow> Draw" where
  "calculate profile d0 =
     (let d = d0\<lparr>Draw_time := Draw_time d0 + 1\<rparr>
      in case Draw_state d of
           s_off \<Rightarrow> d
         | s_manual \<Rightarrow> d
         | s_fail \<Rightarrow> d
         | s_complete \<Rightarrow> d
         | s_init \<Rightarrow> d
         | s_preheat \<Rightarrow>
             if Draw_setpoint d < soakTemp1 profile
             then d\<lparr>Draw_setpoint := Draw_setpoint d + ramp1Slope profile\<rparr>
             else d\<lparr>Draw_state := s_soak, Draw_startOfSoakTime := Draw_time d\<rparr>
         | s_soak \<Rightarrow>
             let d1 = (if Draw_setpoint d < soakTemp2 profile
                       then d\<lparr>Draw_setpoint :=
                               soakTemp1 profile
                               + real_of_int (Draw_time d - Draw_startOfSoakTime d)
                                 * (soakTemp2 profile - soakTemp1 profile)
                                 / real_of_int (soakTime profile)\<rparr>
                       else d)
             in if Draw_time d1 \<ge> Draw_startOfSoakTime d1 + soakTime profile
                then d1\<lparr>Draw_state := s_ramp_up\<rparr>
                else d1
         | s_ramp_up \<Rightarrow>
             if Draw_setpoint d < peakTemp profile
             then d\<lparr>Draw_setpoint := Draw_setpoint d + ramp2Slope profile\<rparr>
             else d\<lparr>Draw_state := s_dwell, Draw_startOfDwellTime := Draw_time d\<rparr>
         | s_dwell \<Rightarrow>
             if Draw_time d > Draw_startOfDwellTime d + peakDwell profile
             then d\<lparr>Draw_state := s_ramp_down\<rparr>
             else d
         | s_ramp_down \<Rightarrow>
             if Draw_setpoint d > 50
             then d\<lparr>Draw_setpoint := Draw_setpoint d + rampDownSlope profile\<rparr>
             else d\<lparr>Draw_state := s_off\<rparr>)"

text \<open>
  \<^verbatim>\<open>Draw::plot\<close> starts the preview with \<^verbatim>\<open>state = s_preheat; time = 0; setpoint = 50.0\<close>;
  the statics keep whatever an earlier preview left in them.
\<close>

definition Draw_plot_start :: "int \<Rightarrow> int \<Rightarrow> Draw" where
  "Draw_plot_start soak0 dwell0 =
     \<lparr>Draw_state = s_preheat, Draw_time = 0, Draw_setpoint = 50,
      Draw_startOfSoakTime = soak0, Draw_startOfDwellTime = dwell0\<rparr>"

subsection \<open>runProfile.cpp: handler\<close>

text \<open>
  The file-level variables \<^verbatim>\<open>time\<close>, \<^verbatim>\<open>setpoint\<close>, \<^verbatim>\<open>ambient\<close>, \<^verbatim>\<open>state\<close> and the three
  function-local statics of \<^verbatim>\<open>handler\<close>.
\<close>

record Executor =
  state :: State
  time :: int
  setpoint :: real
  ambient :: real
  startOfSoakTime :: int
  startOfDwellTime :: int
  timeout :: int

text \<open>
  The calls a function makes on the collaborators \<^verbatim>\<open>pid\<close>, \<^verbatim>\<open>ovenControl\<close>, the CMSIS timer
  and the buzzer, in program order.
\<close>

datatype action =
  pid_setSetpoint real
  | pid_enable bool
  | setHeaterDutycycle int
  | setFanDutycycle int
  | timer_create
  | timer_start real
  | timer_stop
  | timer_destroy
  | Buzzer_play

definition delta :: real where
  "delta = 5"

text \<open>
  \<^verbatim>\<open>getTemperature()\<close> is not among the sources: the measured oven temperature of a tick
  is the parameter \<open>temperature\<close>, one number for all the reads of one tick.
\<close>

definition handler_preheat :: "NvSolderProfile \<Rightarrow> real \<Rightarrow> Executor \<Rightarrow> Executor \<times> action list" where
  "handler_preheat currentProfile temperature e =
     (if setpoint e < soakTemp1 currentProfile
      then
        let sp = setpoint e + ramp1Slope currentProfile
        in (e\<lparr>setpoint := sp, timeout := 0\<rparr>, [pid_setSetpoint sp])
      else
        let e1 = (if temperature \<ge> soakTemp1 currentProfile
                     \<or> (timeout e > 5 \<and> temperature \<ge> soakTemp1 currentProfile - delta)
                  then e\<lparr>state := s_soak, startOfSoakTime := time e\<rparr>
                  else e);
            e2 = e1\<lparr>timeout := timeout e1 + 1\<rparr>
        in (if timeout e2 > 50 then e2\<lparr>state := s_fail\<rparr> else e2, []))"

definition handler_soak :: "NvSolderProfile \<Rightarrow> real \<Rightarrow> Executor \<Rightarrow> Executor \<times> action list" where
  "handler_soak currentProfile temperature e =
     (let (e1, acts) =
            (if setpoint e < soakTemp2 currentProfile
             then
               let sp = soakTemp1 currentProfile
                        + real_of_int (time e - startOfSoakTime e)
                          * (soakTemp2 currentProfile - soakTemp1 currentProfile)
                          / real_of_int (soakTime currentProfile)
               in (e\<lparr>setpoint := sp, timeout := 0\<rparr>, [pid_setSetpoint sp])
             else (e, []))
      in if time e1 \<ge> startOfSoakTime e1 + soakTime currentProfile
         then
           if temperature \<ge> soakTemp2 currentProfile
              \<or> (timeout e1 > 5 \<and> temperature \<ge> soakTemp2 currentProfile - delta)
           then (e1\<lparr>state := s_ramp_up\<rparr>, acts)
           else
             let e2 = e1\<lparr>timeout := timeout e1 + 1\<rparr>
             in (if timeout e2 > 40 then e2\<lparr>state := s_fail\<rparr> else e2, acts)
         else (e1, acts))"

definition handler_ramp_up :: "NvSolderProfile \<Rightarrow> real \<Rightarrow> Executor \<Rightarrow> Executor \<times> action list" where
  "handler_ramp_up currentProfile temperature e =
     (let (e1, acts) =
            (if setpoint e < peakTemp currentProfile
             then
               let sp = setpoint e + ramp2Slope currentProfile
               in (e\<lparr>setpoint := sp, timeout := 0\<rparr>, [pid_setSetpoint sp])
             else (e, []))
      in if temperature \<ge> peakTemp currentProfile - delta
         then (e1\<lparr>state := s_dwell, startOfDwellTime := time e1\<rparr>, acts)
         else
           let e2 = e1\<lparr>timeout := timeout e1 + 1\<rparr>
           in (if timeout e2 > 40 then e2\<lparr>state := s_fail\<rparr> else e2, acts))"

definition handler_dwell :: "NvSolderProfile \<Rightarrow> Executor \<Rightarrow> Executor \<times> action list" where
  "handler_dwell currentProfile e =
     (if time e > startOfDwellTime e + peakDwell currentProfile
      then (e\<lparr>state := s_ramp_down\<rparr>, [])
      else (e, []))"

definition handler_ramp_down :: "NvSolderProfile \<Rightarrow> real \<Rightarrow> Executor \<Rightarrow> Executor \<times> action list" where
  "handler_ramp_down currentProfile temperature e =
     (let e1 = (if setpoint e > ambient e
                then e\<lparr>setpoint := setpoint e + rampDownSlope currentProfile\<rparr>
                else e)
      in (if temperature < ambient e1 then e1\<lparr>state := s_complete\<rparr> else e1,
          [pid_setSetpoint (setpoint e1)]))"

text \<open>
  One call of \<^verbatim>\<open>handler\<close>: the new values of the variables and the collaborator calls
  made. The \<^verbatim>\<open>switch\<close> has no case for \<^verbatim>\<open>s_init\<close>.
\<close>

definition not_operating :: "action list" where
  "not_operating =
     [pid_setSetpoint 0, pid_enable False, setHeaterDutycycle 0, setFanDutycycle 0]"

definition handler :: "NvSolderProfile \<Rightarrow> real \<Rightarrow> Executor \<Rightarrow> Executor \<times> action list" where
  "handler currentProfile temperature e0 =
     (let e = e0\<lparr>time := time e0 + 1\<rparr>
      in case state e of
           s_complete \<Rightarrow> (e, not_operating)
         | s_fail \<Rightarrow> (e, not_operating)
         | s_off \<Rightarrow> (e, [])
         | s_manual \<Rightarrow> (e, [])
         | s_init \<Rightarrow> (e, [])
         | s_preheat \<Rightarrow> handler_preheat currentProfile temperature e
         | s_soak \<Rightarrow> handler_soak currentProfile temperature e
         | s_ramp_up \<Rightarrow> handler_ramp_up currentProfile temperature e
         | s_dwell \<Rightarrow> handler_dwell currentProfile e
         | s_ramp_down \<Rightarrow> handler_ramp_down currentProfile temperature e)"

text \<open>
  A sequence of timer call-backs, one measured temperature per tick: the variables after
  the last one.
\<close>

fun ticks :: "NvSolderProfile \<Rightarrow> real list \<Rightarrow> Executor \<Rightarrow> Executor" where
  "ticks currentProfile [] e = e"
| "ticks currentProfile (temperature # rest) e =
     ticks currentProfile rest (fst (handler currentProfile temperature e))"

subsection \<open>runProfile.cpp: runProfile\<close>

text \<open>
  \<^verbatim>\<open>runProfile\<close> runs concurrently with the timer call-back it starts. The model
  serialises the two: while \<^verbatim>\<open>runProfile\<close> waits in its loop, the call-backs delivered
  before the operator presses the abort button run one after the other, and the loop is
  left as soon as the state is \<^verbatim>\<open>s_complete\<close> or \<^verbatim>\<open>s_fail\<close>. The LCD, log and plot output
  of the loop (\<^verbatim>\<open>displayThermocoupleStatus\<close>) is left out.
\<close>

fun wait_for_completion ::
    "NvSolderProfile \<Rightarrow> real list \<Rightarrow> Executor \<Rightarrow> Executor \<times> action list" where
  "wait_for_completion profile [] e = (e, [])"
| "wait_for_completion profile (temperature # rest) e =
     (if state e = s_complete \<or> state e = s_fail then (e, [])
      else
        let (e1, acts1) = handler profile temperature e;
            (e2, acts2) = wait_for_completion profile rest e1
        in (e2, acts1 @ acts2))"

text \<open>
  The statements after the wait loop. \<open>reports\<close> is the number of once-per-second reports
  made until the operator presses a key; \<^verbatim>\<open>report\<close> advances \<^verbatim>\<open>time\<close>.
\<close>

definition runProfile_finish :: "nat \<Rightarrow> Executor \<Rightarrow> Executor \<times> action list" where
  "runProfile_finish reports e =
     (let e1 = (if state e \<noteq> s_complete then e\<lparr>state := s_fail\<rparr> else e);
          e2 = e1\<lparr>time := time e1 + int reports\<rparr>
      in (e2\<lparr>state := s_off\<rparr>,
          [pid_setSetpoint 0, pid_enable False, setHeaterDutycycle 0,
           timer_stop, timer_destroy, setFanDutycycle 100, Buzzer_play,
           setFanDutycycle 0]))"

text \<open>
  \<^verbatim>\<open>runProfile()\<close>. \<^verbatim>\<open>checkThermocouples\<close> and \<^verbatim>\<open>messageBox\<close> are not among the sources:
  \<open>thermocouplesOk\<close> is the result of the check, \<open>confirmed\<close> says whether the message box
  returned \<^verbatim>\<open>MSG_IS_YES\<close>, \<open>ambient0\<close> is the temperature read as ambient reference and
  \<open>temps\<close> the measured temperatures of the ticks delivered during the wait.
\<close>

definition runProfile ::
    "bool \<Rightarrow> bool \<Rightarrow> real \<Rightarrow> real list \<Rightarrow> nat \<Rightarrow> NvSolderProfile \<Rightarrow> Executor
       \<Rightarrow> Executor \<times> action list" where
  "runProfile thermocouplesOk confirmed ambient0 temps reports profile e =
     (if \<not> thermocouplesOk then (e, [])
      else if \<not> confirmed then (e, [])
      else
        let e1 = e\<lparr>state := s_preheat, time := 0, ambient := ambient0, setpoint := ambient0\<rparr>;
            start = [pid_setSetpoint ambient0, pid_enable True, timer_create, timer_start 1];
            (e2, acts2) = wait_for_completion profile temps e1;
            (e3, acts3) = runProfile_finish reports e2
        in (e3, start @ acts2 @ acts3))"

subsection \<open>The executor as the spec describes it\<close>

text \<open>
  The automatic sequence of section 4.2 of the spec: each phase has one successor.
\<close>

fun spec_successor :: "State \<Rightarrow> State" where
  "spec_successor s_preheat = s_soak"
| "spec_successor s_soak = s_ramp_up"
| "spec_successor s_ramp_up = s_dwell"
| "spec_successor s_dwell = s_ramp_down"
| "spec_successor s_ramp_down = s_complete"
| "spec_successor s = s"

text \<open>The preview and the executor hold the same values in the variables they share.\<close>

definition agree :: "Executor \<Rightarrow> Draw \<Rightarrow> bool" where
  "agree e d =
     (state e = Draw_state d \<and> time e = Draw_time d \<and> setpoint e = Draw_setpoint d
      \<and> startOfSoakTime e = Draw_startOfSoakTime d
      \<and> startOfDwellTime e = Draw_startOfDwellTime d)"

text \<open>
  The spec's sentence on the preview, for one tick from agreeing variables: both make
  the same setpoint update and advance the time alike, the preview stays in its phase or
  moves to the successor, and the executor does the same or fails.
\<close>

definition same_up_to_feedback :: "NvSolderProfile \<Rightarrow> real \<Rightarrow> Executor \<Rightarrow> Draw \<Rightarrow> bool" where
  "same_up_to_feedback profile temperature e d =
     (let e' = fst (handler profile temperature e); d' = calculate profile d
      in setpoint e' = Draw_setpoint d' \<and> time e' = Draw_time d'
         \<and> (Draw_state d' = Draw_state d \<or> Draw_state d' = spec_successor (Draw_state d))
         \<and> (state e' = state e \<or> state e' = spec_successor (state e) \<or> state e' = s_fail))"

subsection \<open>Concrete inputs\<close>

text \<open>
  A data point recorded from four channels of which only channel 1 is enabled, reading
  100 degrees, in the encoding of dataPoint.h and in the encoding of runProfile.cpp.
\<close>

definition dp100 :: DataPoint where
  "dp100 =
     setThermocouplePoint [25, 100, 30, 40] [TH_DISABLED, TH_ENABLED, TH_OPEN, TH_MISSING]
       DataPoint_new"

definition rp100 :: RP_DataPoint where
  "rp100 = DataPoint_addThermocouplePoint [25, 100, 30, 40] 0x02 zero_point"

text \<open>The plot after \<^verbatim>\<open>reset()\<close>, whatever it held before.\<close>

definition empty_plot :: Plot where
  "empty_plot =
     \<lparr>data = replicate (nat MAX_PROFILE_TIME) zero_point, lastValid = 0, marker = 0,
      liveDataPresent = False\<rparr>"

text \<open>
  A profile with the soak parameters of the scenario in section 8 of the spec
  (\<open>soakTemp1 = 100\<close>, \<open>soakTemp2 = 150\<close>, \<open>soakTime = 60\<close>).
\<close>

definition example_profile :: NvSolderProfile where
  "example_profile =
     \<lparr>ramp1Slope = 3, soakTemp1 = 100, soakTemp2 = 150, soakTime = 60, ramp2Slope = 2,
      peakTemp = 200, peakDwell = 10, rampDownSlope = - 2\<rparr>"

text \<open>
  Executor variables: in \<^verbatim>\<open>s_fail\<close>; and waiting in \<^verbatim>\<open>s_preheat\<close> with the setpoint at
  \<open>soakTemp1\<close> and a given value of the timeout counter.
\<close>

definition failed :: Executor where
  "failed =
     \<lparr>state = s_fail, time = 131, setpoint = 150, ambient = 25, startOfSoakTime = 30,
      startOfDwellTime = 0, timeout = 41\<rparr>"

definition preheat_waiting :: "int \<Rightarrow> Executor" where
  "preheat_waiting n =
     \<lparr>state = s_preheat, time = 40, setpoint = 100, ambient = 25, startOfSoakTime = 0,
      startOfDwellTime = 0, timeout = n\<rparr>"

text \<open>
  The scenario of section 8 of the spec: the executor as \<^verbatim>\<open>runProfile\<close> starts it at an
  ambient temperature of 25 degrees; the executor at the end of tick 30, on which it
  entered \<^verbatim>\<open>s_soak\<close>; and the executor in \<^verbatim>\<open>s_soak\<close> at tick 129 with the counter at 40.
\<close>

definition run_start :: Executor where
  "run_start =
     \<lparr>state = s_preheat, time = 0, setpoint = 25, ambient = 25, startOfSoakTime = 0,
      startOfDwellTime = 0, timeout = 0\<rparr>"

definition soak_entered :: Executor where
  "soak_entered =
     \<lparr>state = s_soak, time = 30, setpoint = 100, ambient = 25, startOfSoakTime = 30,
      startOfDwellTime = 0, timeout = 5\<rparr>"

definition soak_overdue :: Executor where
  "soak_overdue =
     \<lparr>state = s_soak, time = 129, setpoint = 150, ambient = 25, startOfSoakTime = 30,
      startOfDwellTime = 0, timeout = 40\<rparr>"

text \<open>
  The executor and the preview with the same values in \<^verbatim>\<open>s_ramp_down\<close>, at a setpoint
  between the ambient temperature and 50 degrees; and both in \<^verbatim>\<open>s_soak\<close>.
\<close>

definition cooling :: Executor where
  "cooling =
     \<lparr>state = s_ramp_down, time = 200, setpoint = 40, ambient = 25, startOfSoakTime = 18,
      startOfDwellTime = 104, timeout = 0\<rparr>"

definition cooling_preview :: Draw where
  "cooling_preview =
     \<lparr>Draw_state = s_ramp_down, Draw_time = 200, Draw_setpoint = 40,
      Draw_startOfSoakTime = 18, Draw_startOfDwellTime = 104\<rparr>"

definition soaking :: Executor where
  "soaking =
     \<lparr>state = s_soak, time = 48, setpoint = 125, ambient = 25, startOfSoakTime = 18,
      startOfDwellTime = 0, timeout = 0\<rparr>"

definition soaking_preview :: Draw where
  "soaking_preview =
     \<lparr>Draw_state = s_soak, Draw_time = 48, Draw_setpoint = 125,
      Draw_startOfSoakTime = 18, Draw_startOfDwellTime = 0\<rparr>"

text \<open>
  Sensors as the SPI transfer reports them at 25 degrees with no fault (probe word
  \<open>0x0190\<close>, cold junction word \<open>0x1900\<close>), one disabled and one enabled.
\<close>

definition disabled_sensor :: Max31855 where
  "disabled_sensor =
     \<lparr>rx0 = 0x01, rx1 = 0x90, rx2 = 0x19, rx3 = 0x00, offset = 0, enabled = False\<rparr>"

definition enabled_sensor :: Max31855 where
  "enabled_sensor =
     \<lparr>rx0 = 0x01, rx1 = 0x90, rx2 = 0x19, rx3 = 0x00, offset = 0, enabled = True\<rparr>"

subsection \<open>Invariants\<close>

text \<open>
  In \<^verbatim>\<open>s_soak\<close> the preview has not passed the end of the soak time, and after the first
  soak tick its setpoint either has reached \<open>soakTemp2\<close> or lies on the line from
  \<open>soakTemp1\<close> to \<open>soakTemp2\<close>.
\<close>

definition soak_line :: "NvSolderProfile \<Rightarrow> Draw \<Rightarrow> bool" where
  "soak_line profile d =
     (Draw_state d = s_soak \<longrightarrow>
        Draw_startOfSoakTime d \<le> Draw_time d
        \<and> (Draw_startOfSoakTime d < Draw_time d \<longrightarrow>
             Draw_time d < Draw_startOfSoakTime d + soakTime profile
             \<and> (soakTemp2 profile \<le> Draw_setpoint d
                 \<or> Draw_setpoint d =
                      soakTemp1 profile
                      + real_of_int (Draw_time d - Draw_startOfSoakTime d)
                        * (soakTemp2 profile - soakTemp1 profile)
                        / real_of_int (soakTime profile))))"

text \<open>
  While the executor waits in \<^verbatim>\<open>s_soak\<close> below the relaxed threshold: from the tick \<open>due\<close>
  on, the setpoint has reached \<open>soakTemp2\<close> and the timeout counter has counted every tick
  since \<open>due\<close>; the executor has failed once the counter has passed 40.
\<close>

definition soak_wait :: "NvSolderProfile \<Rightarrow> int \<Rightarrow> int \<Rightarrow> Executor \<Rightarrow> bool" where
  "soak_wait profile start due e =
     (startOfSoakTime e = start
      \<and> ((state e = s_fail \<and> 40 < timeout e)
          \<or> (state e = s_soak \<and> 0 \<le> timeout e
              \<and> (due \<le> time e \<longrightarrow>
                    soakTemp2 profile \<le> setpoint e
                    \<and> time e - due + 1 \<le> timeout e \<and> timeout e \<le> 40))))"

section \<open>Properties\<close>

subsection \<open>Sensor fusion\<close>

lemma fold_average_body:
  "fold (average_body dp) xs (a, n) =
     (a + (\<Sum>i\<leftarrow>filter (\<lambda>i. getStatus dp i = status_code TH_ENABLED) xs.
             real (unat (fThermocouples dp ! i))),
      n + int (length (filter (\<lambda>i. getStatus dp i = status_code TH_ENABLED) xs)))"
  by (induction xs arbitrary: a n) (simp_all add: average_body_def)

lemma fold_RP_average_body:
  "fold (RP_average_body dp) xs (a, n) =
     (a + (\<Sum>i\<leftarrow>filter (isActive dp) xs. real (unat (thermocouples dp ! i))),
      n + int (length (filter (isActive dp) xs)))"
  by (induction xs arbitrary: a n) (simp_all add: RP_average_body_def)

lemma sum_list_scaled:
  "(\<Sum>i\<leftarrow>xs. f i / (c::real)) = (\<Sum>i\<leftarrow>xs. f i) / c"
  by (induction xs) (simp_all add: add_divide_distrib)

lemma getAverageTemperature_mean:
  "getAverageTemperature dp =
     (let en = filter (\<lambda>i. getStatus dp i = status_code TH_ENABLED) [0..<NUM_THERMOCOUPLES]
      in if en = [] then None
         else Some ((\<Sum>i\<leftarrow>en. fst (getTemperature dp i)) / real (length en)))"
  by (simp add: getAverageTemperature_def fold_average_body getTemperature_def
      sum_list_scaled Let_def)

lemma averageTemperature_mean:
  "averageTemperature rp =
     (let en = filter (isActive rp) [0..<NUM_THERMOCOUPLES]
      in if en = [] then None
         else Some ((\<Sum>i\<leftarrow>en. real (unat (thermocouples rp ! i)) / FIXED_POINT_SCALE)
                    / real (length en)))"
  by (simp add: averageTemperature_def fold_RP_average_body sum_list_scaled Let_def)

lemma filter_upt_none: "\<forall>j<n. \<not> P j \<Longrightarrow> filter P [0..<n] = []"
  by (induction n) simp_all

lemma filter_upt_single:
  "i < n \<Longrightarrow> \<forall>j<n. P j = (j = i) \<Longrightarrow> filter P [0..<n] = [i]"
proof (induction n)
  case 0
  then show ?case by simp
next
  case (Suc n)
  show ?case
  proof (cases "i = n")
    case True
    with Suc.prems have "\<forall>j<n. \<not> P j" and "P n" by auto
    then show ?thesis using True by (simp add: filter_upt_none)
  next
    case False
    with Suc.prems have "i < n" and "\<forall>j<n. P j = (j = i)" and "\<not> P n" by auto
    then show ?thesis using Suc.IH by simp
  qed
qed

lemma upt4: "[0..<NUM_THERMOCOUPLES] = [0, 1, 2, 3]"
  by (simp add: NUM_THERMOCOUPLES_def upt_rec)

lemma to_fixed_values:
  "to_fixed 25 = 2500" "to_fixed 100 = 10000" "to_fixed 30 = 3000" "to_fixed 40 = 4000"
  by (simp_all add: to_fixed_def c_round_def FIXED_POINT_SCALE_def)

lemma dp100_eq: "dp100 = \<lparr>fState_status = 33904, fHeater = 0, fFan = 0, fTargetTemp = 0,
    fThermocouples = [2500, 10000, 3000, 4000]\<rparr>"
  by (simp add: dp100_def setThermocouplePoint_def upt4 setStatus_def setTemperature_def DataPoint_new_def to_fixed_values THERMO_STATUS_WIDTH_def THERMO_STATUS_OFFSET_def THERMO_STATUS_MASK_def)

lemma dp100_status: "map (getStatus dp100) [0, 1, 2, 3] = [7, 0, 1, 4]"
  by (simp add: dp100_eq getStatus_def THERMO_STATUS_WIDTH_def THERMO_STATUS_OFFSET_def THERMO_STATUS_MASK_def)

lemma rp100_eq: "rp100 = \<lparr>dp_state = s_off, heater = 0, fan = 0, activeThermocouples = 2, target = 0,
      thermocouples = [2500, 10000, 3000, 4000]\<rparr>"
  by (simp add: rp100_def DataPoint_addThermocouplePoint_def zero_point_def upt4 to_fixed_values)

lemma all_less_4: "(\<forall>j<NUM_THERMOCOUPLES. P j) = (P 0 \<and> P 1 \<and> P 2 \<and> P 3)"
  unfolding NUM_THERMOCOUPLES_def
  by (auto simp: less_Suc_eq numeral_eq_Suc)

text \<open>
  C1. The fused temperature of a data point is the arithmetic mean of the recorded
  temperatures of exactly the channels that are enabled (status code \<open>TH_ENABLED\<close> in
  dataPoint.h, bit set in the active mask in runProfile.cpp), and it is the "no data" value
  \<open>None\<close> (\<^verbatim>\<open>NAN\<close>) when no channel is enabled. With exactly one enabled channel recorded at
  100 degrees the fused temperature is exactly 100.
\<close>

theorem C1_average_temperature:
  "getAverageTemperature dp =
     (let en = filter (\<lambda>i. getStatus dp i = status_code TH_ENABLED) [0..<NUM_THERMOCOUPLES]
      in if en = [] then None
         else Some ((\<Sum>i\<leftarrow>en. fst (getTemperature dp i)) / real (length en)))
   \<and> averageTemperature rp =
     (let en = filter (isActive rp) [0..<NUM_THERMOCOUPLES]
      in if en = [] then None
         else Some ((\<Sum>i\<leftarrow>en. real (unat (thermocouples rp ! i)) / FIXED_POINT_SCALE)
                    / real (length en)))
   \<and> (\<forall>i<NUM_THERMOCOUPLES.
        (\<forall>j<NUM_THERMOCOUPLES. (getStatus dp j = status_code TH_ENABLED) = (j = i)) \<longrightarrow>
        fst (getTemperature dp i) = 100 \<longrightarrow> getAverageTemperature dp = Some 100)
   \<and> (\<forall>i<NUM_THERMOCOUPLES.
        (\<forall>j<NUM_THERMOCOUPLES. isActive rp j = (j = i)) \<longrightarrow>
        real (unat (thermocouples rp ! i)) / FIXED_POINT_SCALE = 100 \<longrightarrow>
        averageTemperature rp = Some 100)"
proof (intro conjI allI impI)
  show "getAverageTemperature dp =
     (let en = filter (\<lambda>i. getStatus dp i = status_code TH_ENABLED) [0..<NUM_THERMOCOUPLES]
      in if en = [] then None
         else Some ((\<Sum>i\<leftarrow>en. fst (getTemperature dp i)) / real (length en)))"
    by (rule getAverageTemperature_mean)
  show "averageTemperature rp =
     (let en = filter (isActive rp) [0..<NUM_THERMOCOUPLES]
      in if en = [] then None
         else Some ((\<Sum>i\<leftarrow>en. real (unat (thermocouples rp ! i)) / FIXED_POINT_SCALE)
                    / real (length en)))"
    by (rule averageTemperature_mean)
next
  fix i
  assume "i < NUM_THERMOCOUPLES"
    and "\<forall>j<NUM_THERMOCOUPLES. (getStatus dp j = status_code TH_ENABLED) = (j = i)"
    and t: "fst (getTemperature dp i) = 100"
  then have "filter (\<lambda>j. getStatus dp j = status_code TH_ENABLED) [0..<NUM_THERMOCOUPLES] = [i]"
    by (intro filter_upt_single)
  then show "getAverageTemperature dp = Some 100"
    using t by (simp add: getAverageTemperature_mean)
next
  fix i
  assume "i < NUM_THERMOCOUPLES"
    and "\<forall>j<NUM_THERMOCOUPLES. isActive rp j = (j = i)"
    and t: "real (unat (thermocouples rp ! i)) / FIXED_POINT_SCALE = 100"
  then have "filter (isActive rp) [0..<NUM_THERMOCOUPLES] = [i]"
    by (intro filter_upt_single)
  then show "averageTemperature rp = Some 100"
    using t by (simp add: averageTemperature_mean)
qed

theorem C1_average_temperature_witness:
  "getAverageTemperature dp100 = Some 100 \<and> averageTemperature rp100 = Some 100"
proof -
  have s: "\<forall>j<NUM_THERMOCOUPLES. (getStatus dp100 j = status_code TH_ENABLED) = (j = 1)"
    using dp100_status by (simp add: all_less_4)
  have t: "fst (getTemperature dp100 1) = 100"
    by (simp add: getTemperature_def dp100_eq FIXED_POINT_SCALE_def)
  have s': "\<forall>j<NUM_THERMOCOUPLES. isActive rp100 j = (j = 1)"
    by (simp add: all_less_4 isActive_def rp100_eq)
  have t': "real (unat (thermocouples rp100 ! 1)) / FIXED_POINT_SCALE = 100"
    by (simp add: rp100_eq FIXED_POINT_SCALE_def)
  have n: "1 < NUM_THERMOCOUPLES" by (simp add: NUM_THERMOCOUPLES_def)
  show ?thesis
    using C1_average_temperature [of dp100 rp100] s t s' t' n by blast
qed

subsection \<open>Plot\<close>

text \<open>
  C9. After \<^verbatim>\<open>reset()\<close>, and before any point is added, the index of the last valid
  point is 0 and no live data is present, whatever the plot held before.
\<close>

theorem C9_reset: "getLastValid (reset pl) = 0 \<and> isLiveDataPresent (reset pl) = False"
  by (simp add: getLastValid_def isLiveDataPresent_def reset_def)

lemma addTargetPoint_cases:
  "0 \<le> t \<Longrightarrow>
   addTargetPoint t temp pl =
     Inr (if MAX_PROFILE_TIME \<le> t then pl
          else pl\<lparr>lastValid := max (lastValid pl) t,
                  data := (data pl)[nat t := setTarget temp (data pl ! nat t)]\<rparr>)"
  by (simp add: addTargetPoint_def Let_def max_def)

lemma addThermocouplePoint_cases:
  "0 \<le> t \<Longrightarrow>
   addThermocouplePoint t temps active pl =
     Inr (if MAX_PROFILE_TIME \<le> t then pl
          else pl\<lparr>liveDataPresent := True, lastValid := max (lastValid pl) t,
                  data := (data pl)[nat t := DataPoint_addThermocouplePoint temps active
                                                 (data pl ! nat t)]\<rparr>)"
  by (simp add: addThermocouplePoint_def Let_def max_def)

lemma add_negative_index:
  "t < 0 \<Longrightarrow> addTargetPoint t temp pl = Inl OutOfBounds
     \<and> addThermocouplePoint t temps active pl = Inl OutOfBounds"
  by (simp add: addTargetPoint_def addThermocouplePoint_def Let_def MAX_PROFILE_TIME_def)

text \<open>
  C10. For a time index at or beyond the capacity \<open>MAX_PROFILE_TIME\<close> (540 ticks) both add
  operations leave the whole plot unchanged. For a time index in \<open>0..<540\<close> they write the
  one element \<open>data[time]\<close> and set \<open>lastValid\<close> to the maximum of its old value and the
  index (the thermocouple variant also sets \<open>liveDataPresent\<close>). Hence \<open>lastValid\<close> never
  decreases and stays below the capacity once it is below it, the array keeps its length,
  and the element written lies inside the array.
\<close>

theorem C10_add_point:
  assumes "0 \<le> t"
  shows "addTargetPoint t temp pl =
           Inr (if MAX_PROFILE_TIME \<le> t then pl
                else pl\<lparr>lastValid := max (lastValid pl) t,
                        data := (data pl)[nat t := setTarget temp (data pl ! nat t)]\<rparr>)
       \<and> addThermocouplePoint t temps active pl =
           Inr (if MAX_PROFILE_TIME \<le> t then pl
                else pl\<lparr>liveDataPresent := True, lastValid := max (lastValid pl) t,
                        data := (data pl)[nat t := DataPoint_addThermocouplePoint temps active
                                                       (data pl ! nat t)]\<rparr>)
       \<and> (\<forall>pl'. addTargetPoint t temp pl = Inr pl'
                 \<or> addThermocouplePoint t temps active pl = Inr pl' \<longrightarrow>
               lastValid pl \<le> lastValid pl'
               \<and> (lastValid pl < MAX_PROFILE_TIME \<longrightarrow> lastValid pl' < MAX_PROFILE_TIME)
               \<and> length (data pl') = length (data pl)
               \<and> (\<forall>k. k \<noteq> nat t \<longrightarrow> data pl' ! k = data pl ! k))
       \<and> (t < MAX_PROFILE_TIME \<and> length (data pl) = nat MAX_PROFILE_TIME
            \<longrightarrow> nat t < length (data pl))"
proof (intro conjI allI impI)
  show "addTargetPoint t temp pl =
           Inr (if MAX_PROFILE_TIME \<le> t then pl
                else pl\<lparr>lastValid := max (lastValid pl) t,
                        data := (data pl)[nat t := setTarget temp (data pl ! nat t)]\<rparr>)"
    using assms by (rule addTargetPoint_cases)
  show "addThermocouplePoint t temps active pl =
           Inr (if MAX_PROFILE_TIME \<le> t then pl
                else pl\<lparr>liveDataPresent := True, lastValid := max (lastValid pl) t,
                        data := (data pl)[nat t := DataPoint_addThermocouplePoint temps active
                                                       (data pl ! nat t)]\<rparr>)"
    using assms by (rule addThermocouplePoint_cases)
next
  fix pl'
  assume "addTargetPoint t temp pl = Inr pl' \<or> addThermocouplePoint t temps active pl = Inr pl'"
  then have pl': "pl' = (if MAX_PROFILE_TIME \<le> t then pl
                else pl\<lparr>lastValid := max (lastValid pl) t,
                        data := (data pl)[nat t := setTarget temp (data pl ! nat t)]\<rparr>)
      \<or> pl' = (if MAX_PROFILE_TIME \<le> t then pl
                else pl\<lparr>liveDataPresent := True, lastValid := max (lastValid pl) t,
                        data := (data pl)[nat t := DataPoint_addThermocouplePoint temps active
                                                       (data pl ! nat t)]\<rparr>)"
    using assms by (auto simp: addTargetPoint_cases addThermocouplePoint_cases)
  show "lastValid pl \<le> lastValid pl'"
    using pl' by (auto split: if_splits)
  show "lastValid pl' < MAX_PROFILE_TIME" if "lastValid pl < MAX_PROFILE_TIME"
    using pl' that by (auto split: if_splits)
  show "length (data pl') = length (data pl)"
    using pl' by (auto split: if_splits)
  show "data pl' ! k = data pl ! k" if "k \<noteq> nat t" for k
    using pl' that by (auto split: if_splits)
next
  assume "t < MAX_PROFILE_TIME \<and> length (data pl) = nat MAX_PROFILE_TIME"
  then show "nat t < length (data pl)"
    using assms by simp
qed

theorem C10_add_point_witness:
  "addTargetPoint 3 50 empty_plot =
     Inr (empty_plot\<lparr>lastValid := 3, data := (data empty_plot)[3 := setTarget 50 zero_point]\<rparr>)
   \<and> addTargetPoint 540 50 empty_plot = Inr empty_plot
   \<and> addThermocouplePoint 540 [25, 100, 30, 40] 0x02 empty_plot = Inr empty_plot
   \<and> addThermocouplePoint 3 [25, 100, 30, 40] 0x02 empty_plot =
     Inr (empty_plot\<lparr>liveDataPresent := True, lastValid := 3,
                      data := (data empty_plot)[3 := rp100]\<rparr>)"
proof -
  have z: "data empty_plot ! 3 = zero_point" "lastValid empty_plot = 0"
    by (simp_all add: empty_plot_def MAX_PROFILE_TIME_def)
  have h3: "(0::int) \<le> 3" and h540: "(0::int) \<le> 540" by simp_all
  note in_range = C10_add_point [of 3 50 empty_plot "[25, 100, 30, 40]" "0x02", OF h3]
  note beyond = C10_add_point [of 540 50 empty_plot "[25, 100, 30, 40]" "0x02", OF h540]
  have "addTargetPoint 3 50 empty_plot =
     Inr (empty_plot\<lparr>lastValid := 3, data := (data empty_plot)[3 := setTarget 50 zero_point]\<rparr>)"
    using in_range [THEN conjunct1] z by (simp add: MAX_PROFILE_TIME_def)
  moreover have "addThermocouplePoint 3 [25, 100, 30, 40] 0x02 empty_plot =
     Inr (empty_plot\<lparr>liveDataPresent := True, lastValid := 3,
                      data := (data empty_plot)[3 := rp100]\<rparr>)"
    using in_range [THEN conjunct2, THEN conjunct1] z by (simp add: MAX_PROFILE_TIME_def rp100_def)
  moreover have "addTargetPoint 540 50 empty_plot = Inr empty_plot"
    using beyond [THEN conjunct1] by (simp add: MAX_PROFILE_TIME_def)
  moreover have "addThermocouplePoint 540 [25, 100, 30, 40] 0x02 empty_plot = Inr empty_plot"
    using beyond [THEN conjunct2, THEN conjunct1] by (simp add: MAX_PROFILE_TIME_def)
  ultimately show ?thesis by blast
qed

subsection \<open>Run driver\<close>

text \<open>
  C7. When the thermocouple check fails, \<^verbatim>\<open>runProfile\<close> returns at once: it calls neither
  the PID controller, nor the heater and fan outputs, nor the timer (the timer object is
  constructed before the check, but neither created nor started), and it leaves every
  executor variable, the run state among them, as it was.
\<close>

theorem C7_refuses_to_start:
  "runProfile False confirmed ambient0 temps reports profile e = (e, [])"
  by (simp add: runProfile_def)

lemma runProfile_started:
  "\<exists>rest. snd (runProfile True True ambient0 temps reports profile e) =
     pid_setSetpoint ambient0 # pid_enable True # timer_create # timer_start 1 # rest"
  by (simp add: runProfile_def Let_def split: prod.splits)

lemma handler_not_operating:
  "state e = s_fail \<or> state e = s_complete \<Longrightarrow>
   snd (handler p T e) =
     [pid_setSetpoint 0, pid_enable False, setHeaterDutycycle 0, setFanDutycycle 0]"
  by (auto simp: handler_def not_operating_def)

lemma handler_actions:
  "snd (handler p T e) = not_operating \<or> snd (handler p T e) = []
   \<or> (\<exists>sp. snd (handler p T e) = [pid_setSetpoint sp])"
  by (cases "state e")
     (auto simp: handler_def handler_preheat_def handler_soak_def handler_ramp_up_def
        handler_dwell_def handler_ramp_down_def Let_def split: prod.splits if_splits)

lemma handler_timeout_tick:
  assumes "state e \<noteq> s_fail" "state (fst (handler p T e)) = s_fail"
  shows "snd (handler p T e) = []"
  using assms
  by (cases "state e")
     (auto simp: handler_def handler_preheat_def handler_soak_def handler_ramp_up_def
        handler_dwell_def handler_ramp_down_def Let_def split: prod.splits if_splits)

text \<open>
  C3, as the spec states it: on every failure the first collaborator call forces the
  heater output to 0. It fails on the code. In \<^verbatim>\<open>s_fail\<close> the handler first sets the PID
  setpoint; so does the end of \<^verbatim>\<open>runProfile\<close>; and the tick on which the preheat timeout
  expires only records \<^verbatim>\<open>s_fail\<close> and calls no collaborator.
\<close>

theorem C3_counterexample:
  "state failed = s_fail
   \<and> hd (snd (handler example_profile 20 failed)) = pid_setSetpoint 0
   \<and> hd (snd (handler example_profile 20 failed)) \<noteq> setHeaterDutycycle 0
   \<and> hd (snd (runProfile_finish 0 failed)) \<noteq> setHeaterDutycycle 0
   \<and> state (preheat_waiting 50) = s_preheat
   \<and> state (fst (handler example_profile 20 (preheat_waiting 50))) = s_fail
   \<and> snd (handler example_profile 20 (preheat_waiting 50)) = []"
  by (simp add: failed_def handler_def not_operating_def runProfile_finish_def
      preheat_waiting_def handler_preheat_def example_profile_def delta_def)

text \<open>
  C3, amended. In \<^verbatim>\<open>s_fail\<close> and \<^verbatim>\<open>s_complete\<close> the handler sets the PID setpoint to 0,
  disables the PID controller, forces the heater output to 0 and then the fan to 0, in
  this order. The end of \<^verbatim>\<open>runProfile\<close> makes the same three calls first, before it stops
  the timer and sets the fan. The tick that moves the executor into \<^verbatim>\<open>s_fail\<close> calls no
  collaborator: the heater is forced off by the next tick or by \<^verbatim>\<open>runProfile\<close>.
\<close>

theorem C3_heater_off_after_pid:
  "(state e = s_fail \<or> state e = s_complete \<longrightarrow>
      snd (handler p T e) =
        [pid_setSetpoint 0, pid_enable False, setHeaterDutycycle 0, setFanDutycycle 0])
   \<and> snd (runProfile_finish reports e) =
        [pid_setSetpoint 0, pid_enable False, setHeaterDutycycle 0, timer_stop, timer_destroy,
         setFanDutycycle 100, Buzzer_play, setFanDutycycle 0]
   \<and> (state e \<noteq> s_fail \<and> state (fst (handler p T e)) = s_fail \<longrightarrow>
        snd (handler p T e) = [])"
  using handler_not_operating [of e p T] handler_timeout_tick [of e p T]
  by (simp add: runProfile_finish_def Let_def)

theorem C3_heater_off_after_pid_witness:
  "snd (handler example_profile 20 failed) =
     [pid_setSetpoint 0, pid_enable False, setHeaterDutycycle 0, setFanDutycycle 0]
   \<and> state (fst (handler example_profile 20 (preheat_waiting 50))) = s_fail
   \<and> snd (handler example_profile 20 (preheat_waiting 50)) = []"
proof -
  have "state failed = s_fail" by (simp add: failed_def)
  moreover have "state (preheat_waiting 50) \<noteq> s_fail"
    by (simp add: preheat_waiting_def)
  moreover have "state (fst (handler example_profile 20 (preheat_waiting 50))) = s_fail"
    by (simp add: handler_def preheat_waiting_def handler_preheat_def example_profile_def
        delta_def)
  ultimately show ?thesis
    using C3_heater_off_after_pid [of failed example_profile 20]
      C3_heater_off_after_pid [of "preheat_waiting 50" example_profile 20]
    by blast
qed

subsection \<open>Preheat\<close>

text \<open>
  While the setpoint has reached \<open>soakTemp1\<close> and the measured temperature is exactly
  \<open>soakTemp1 - 5\<close>, one tick depends on the timeout counter alone.
\<close>

lemma handler_preheat_waiting:
  assumes "state e = s_preheat" "soakTemp1 p \<le> setpoint e"
  shows "fst (handler p (soakTemp1 p - 5) e) =
           (if 50 \<le> timeout e
            then (if 5 < timeout e then e\<lparr>time := time e + 1, state := s_fail,
                       startOfSoakTime := time e + 1, timeout := timeout e + 1\<rparr>
                  else e\<lparr>time := time e + 1, state := s_fail, timeout := timeout e + 1\<rparr>)
            else if 5 < timeout e
            then e\<lparr>time := time e + 1, state := s_soak, startOfSoakTime := time e + 1,
                   timeout := timeout e + 1\<rparr>
            else e\<lparr>time := time e + 1, timeout := timeout e + 1\<rparr>)"
  using assms by (simp add: handler_def handler_preheat_def Let_def delta_def)

lemma ticks_append: "ticks p (xs @ ys) e = ticks p ys (ticks p xs e)"
  by (induction xs arbitrary: e) simp_all

lemma preheat_ramp_tick:
  assumes "state e = s_preheat" "setpoint e < soakTemp1 p"
  shows "timeout (fst (handler p T e)) = 0" and "state (fst (handler p T e)) = s_preheat"
  using assms by (simp_all add: handler_def handler_preheat_def Let_def)

text \<open>
  Waiting ticks below \<open>soakTemp1\<close> that find the counter at 5 or less: the executor stays in
  \<^verbatim>\<open>s_preheat\<close>, the setpoint stays, and the counter counts the ticks.
\<close>

lemma preheat_waiting_run:
  assumes "state e = s_preheat" and "soakTemp1 p \<le> setpoint e"
    and "timeout e + int (length Ts) \<le> 6" and "\<forall>T\<in>set Ts. T < soakTemp1 p"
  shows "state (ticks p Ts e) = s_preheat \<and> setpoint (ticks p Ts e) = setpoint e
         \<and> timeout (ticks p Ts e) = timeout e + int (length Ts)"
  using assms
proof (induction Ts arbitrary: e)
  case Nil
  then show ?case by simp
next
  case (Cons T Ts)
  let ?e = "fst (handler p T e)"
  from Cons.prems have step: "state ?e = s_preheat" "setpoint ?e = setpoint e"
      "timeout ?e = timeout e + 1"
    by (simp_all add: handler_def handler_preheat_def Let_def delta_def)
  with Cons.prems have "state (ticks p Ts ?e) = s_preheat
         \<and> setpoint (ticks p Ts ?e) = setpoint ?e
         \<and> timeout (ticks p Ts ?e) = timeout ?e + int (length Ts)"
    by (intro Cons.IH) simp_all
  with step show ?case by simp
qed

lemma preheat_exit_after:
  assumes "state e = s_preheat" and "soakTemp1 p \<le> setpoint e" and "timeout e = 0"
    and "length Ts \<le> 6" and "\<forall>T\<in>set Ts. T < soakTemp1 p"
  shows "state (ticks p (Ts @ [soakTemp1 p - 5]) e) =
           (if length Ts = 6 then s_soak else s_preheat)"
proof -
  let ?e = "ticks p Ts e"
  from assms have waited: "state ?e = s_preheat" "soakTemp1 p \<le> setpoint ?e"
      "timeout ?e = int (length Ts)"
    using preheat_waiting_run [of e p Ts] by simp_all
  have "state (ticks p (Ts @ [soakTemp1 p - 5]) e) = state (fst (handler p (soakTemp1 p - 5) ?e))"
    by (simp add: ticks_append)
  also have "\<dots> = (if 50 \<le> timeout ?e then s_fail
                    else if 5 < timeout ?e then s_soak else s_preheat)"
    using waited(1,2) by (simp add: handler_preheat_waiting)
  also have "\<dots> = (if length Ts = 6 then s_soak else s_preheat)"
    using waited(3) assms(4) by auto
  finally show ?thesis .
qed

text \<open>
  At constant \<open>soakTemp1 - 5\<close> from a counter of 0: still \<^verbatim>\<open>s_preheat\<close> after six ticks,
  \<^verbatim>\<open>s_soak\<close> after seven.
\<close>

lemma preheat_waiting_ticks:
  "state (ticks example_profile (replicate 6 95) (preheat_waiting 0)) = s_preheat
   \<and> timeout (ticks example_profile (replicate 6 95) (preheat_waiting 0)) = 6
   \<and> state (ticks example_profile (replicate 7 95) (preheat_waiting 0)) = s_soak"
  by (simp add: numeral_eq_Suc handler_def handler_preheat_def preheat_waiting_def
      example_profile_def delta_def Let_def)

text \<open>
  C4, as the spec states it: once the setpoint has reached \<open>soakTemp1\<close>, a measured
  temperature of exactly \<open>soakTemp1 - 5\<close> on the 6th timeout tick takes the relaxed exit to
  \<^verbatim>\<open>s_soak\<close>. It fails on the code, which tests \<^verbatim>\<open>timeout>5\<close> before \<^verbatim>\<open>timeout++\<close>. At an
  ambient temperature of 25 degrees and 3 degrees per tick the setpoint is at
  \<open>soakTemp1 = 100\<close> after 25 ticks, with the counter at 0; the following ticks are the
  timeout ticks. With 95 degrees measured on the 6th of them the executor stays in
  \<^verbatim>\<open>s_preheat\<close>; it leaves on the 7th.
\<close>

theorem C4_counterexample:
  "soakTemp1 example_profile - 5 = 95
   \<and> state (ticks example_profile (replicate 25 20) run_start) = s_preheat
   \<and> setpoint (ticks example_profile (replicate 25 20) run_start) = soakTemp1 example_profile
   \<and> timeout (ticks example_profile (replicate 25 20) run_start) = 0
   \<and> state (ticks example_profile (replicate 25 20 @ replicate 5 20 @ [95]) run_start)
       = s_preheat
   \<and> state (ticks example_profile (replicate 25 20 @ replicate 5 20 @ [95, 95]) run_start)
       = s_soak"
  by (simp add: numeral_eq_Suc handler_def handler_preheat_def run_start_def
      example_profile_def delta_def Let_def)

text \<open>
  C4, amended. In \<^verbatim>\<open>s_preheat\<close> a tick that finds the setpoint below \<open>soakTemp1\<close> sets the
  timeout counter to 0 and stays in \<^verbatim>\<open>s_preheat\<close>. Once the setpoint has reached
  \<open>soakTemp1\<close>, a tick with a measured temperature of exactly \<open>soakTemp1 - 5\<close> moves to
  \<^verbatim>\<open>s_soak\<close> exactly when it finds the counter above 5 and below 50, and fails when it finds
  it at 50 or above. Counted from a counter of 0, with the measured temperature below
  \<open>soakTemp1\<close> on the ticks before: exactly \<open>soakTemp1 - 5\<close> on the 7th tick moves to
  \<^verbatim>\<open>s_soak\<close>, on the 6th tick it stays in \<^verbatim>\<open>s_preheat\<close>.
\<close>

theorem C4_relaxed_exit_seventh_tick:
  assumes "state e = s_preheat" and "\<forall>T\<in>set Ts. T < soakTemp1 p"
  shows "(setpoint e < soakTemp1 p \<longrightarrow>
            timeout (fst (handler p T0 e)) = 0 \<and> state (fst (handler p T0 e)) = s_preheat)
       \<and> (soakTemp1 p \<le> setpoint e \<longrightarrow>
            state (fst (handler p (soakTemp1 p - 5) e)) =
              (if 50 \<le> timeout e then s_fail else if 5 < timeout e then s_soak else s_preheat))
       \<and> (soakTemp1 p \<le> setpoint e \<and> timeout e = 0 \<and> length Ts = 5 \<longrightarrow>
            state (ticks p (Ts @ [soakTemp1 p - 5]) e) = s_preheat)
       \<and> (soakTemp1 p \<le> setpoint e \<and> timeout e = 0 \<and> length Ts = 6 \<longrightarrow>
            state (ticks p (Ts @ [soakTemp1 p - 5]) e) = s_soak)"
proof (intro conjI impI)
  assume "setpoint e < soakTemp1 p"
  with assms(1) show "timeout (fst (handler p T0 e)) = 0"
    and "state (fst (handler p T0 e)) = s_preheat"
    by (simp_all add: preheat_ramp_tick)
next
  assume "soakTemp1 p \<le> setpoint e"
  with assms(1) show "state (fst (handler p (soakTemp1 p - 5) e)) =
              (if 50 \<le> timeout e then s_fail else if 5 < timeout e then s_soak else s_preheat)"
    by (simp add: handler_preheat_waiting)
next
  assume "soakTemp1 p \<le> setpoint e \<and> timeout e = 0 \<and> length Ts = 5"
  with assms show "state (ticks p (Ts @ [soakTemp1 p - 5]) e) = s_preheat"
    using preheat_exit_after [of e p Ts] by simp
next
  assume "soakTemp1 p \<le> setpoint e \<and> timeout e = 0 \<and> length Ts = 6"
  with assms show "state (ticks p (Ts @ [soakTemp1 p - 5]) e) = s_soak"
    using preheat_exit_after [of e p Ts] by simp
qed

theorem C4_relaxed_exit_seventh_tick_witness:
  "timeout (fst (handler example_profile 20 run_start)) = 0
   \<and> state (fst (handler example_profile 95 (preheat_waiting 6))) = s_soak
   \<and> state (fst (handler example_profile 95 (preheat_waiting 5))) = s_preheat
   \<and> state (ticks example_profile (replicate 5 20 @ [95]) (preheat_waiting 0)) = s_preheat
   \<and> state (ticks example_profile (replicate 6 20 @ [95]) (preheat_waiting 0)) = s_soak"
proof -
  have w: "state (preheat_waiting n) = s_preheat"
      "soakTemp1 example_profile \<le> setpoint (preheat_waiting n)"
      "timeout (preheat_waiting n) = n" for n
    by (simp_all add: preheat_waiting_def example_profile_def)
  have r: "state run_start = s_preheat" "setpoint run_start < soakTemp1 example_profile"
    by (simp_all add: run_start_def example_profile_def)
  have cold: "\<forall>T\<in>set (replicate k (20::real)). T < soakTemp1 example_profile" for k
    by (simp add: example_profile_def)
  have b: "soakTemp1 example_profile - 5 = 95"
    by (simp add: example_profile_def)
  note ramp = C4_relaxed_exit_seventh_tick [OF r(1) cold [of 0], of 20, THEN conjunct1,
      rule_format, OF r(2)]
  note at6 = C4_relaxed_exit_seventh_tick [OF w(1) [of 6] cold [of 0], THEN conjunct2,
      THEN conjunct1, rule_format, OF w(2)]
  note at5 = C4_relaxed_exit_seventh_tick [OF w(1) [of 5] cold [of 0], THEN conjunct2,
      THEN conjunct1, rule_format, OF w(2)]
  have l5: "soakTemp1 example_profile \<le> setpoint (preheat_waiting 0)
            \<and> timeout (preheat_waiting 0) = 0 \<and> length (replicate 5 (20::real)) = 5"
    and l6: "soakTemp1 example_profile \<le> setpoint (preheat_waiting 0)
            \<and> timeout (preheat_waiting 0) = 0 \<and> length (replicate 6 (20::real)) = 6"
    using w [of 0] by simp_all
  note sixth = C4_relaxed_exit_seventh_tick [OF w(1) [of 0] cold [of 5], THEN conjunct2,
      THEN conjunct2, THEN conjunct1, rule_format, OF l5]
  note seventh = C4_relaxed_exit_seventh_tick [OF w(1) [of 0] cold [of 6], THEN conjunct2,
      THEN conjunct2, THEN conjunct2, rule_format, OF l6]
  from ramp at6 at5 sixth seventh show ?thesis
    unfolding b by (simp add: w(3))
qed

subsection \<open>Preview curve\<close>

lemma soak_line_preheat: "Draw_state d = s_preheat \<Longrightarrow> soak_line p d"
  by (simp add: soak_line_def)

lemma soak_line_calculate:
  assumes "soak_line p d"
  shows "soak_line p (calculate p d)"
proof (cases "Draw_state d")
  case s_soak
  with assms show ?thesis
    by (auto simp: soak_line_def calculate_def Let_def)
qed (simp_all add: soak_line_def calculate_def Let_def)

lemma soak_line_funpow:
  "Draw_state d0 = s_preheat \<Longrightarrow> soak_line p ((calculate p ^^ n) d0)"
  by (induction n) (simp_all add: soak_line_preheat soak_line_calculate)

lemma soak_step_mono:
  fixes k :: int and c T1 :: real
  assumes "0 \<le> c" "0 < T"
  shows "T1 + real_of_int k * c / real_of_int T \<le> T1 + real_of_int (k + 1) * c / real_of_int T"
proof -
  have "real_of_int k * c \<le> real_of_int (k + 1) * c"
    using assms by (simp add: mult_right_mono)
  then have "real_of_int k * c / real_of_int T \<le> real_of_int (k + 1) * c / real_of_int T"
    using assms by (simp add: divide_right_mono)
  then show ?thesis by simp
qed

lemma calculate_rising:
  assumes inv: "soak_line p d"
    and prof: "soakTemp1 p < soakTemp2 p" "0 < ramp1Slope p" "0 < ramp2Slope p"
    and st: "Draw_state d = s_preheat
             \<or> (Draw_state d = s_soak \<and> Draw_startOfSoakTime d < Draw_time d)
             \<or> Draw_state d = s_ramp_up \<or> Draw_state d = s_dwell"
  shows "Draw_setpoint d \<le> Draw_setpoint (calculate p d)"
proof (cases "Draw_state d = s_soak")
  case False
  with st prof show ?thesis
    by (auto simp: calculate_def Let_def)
next
  case True
  with st have later: "Draw_startOfSoakTime d < Draw_time d" by auto
  with inv True have before_end: "Draw_time d < Draw_startOfSoakTime d + soakTime p"
    and line: "soakTemp2 p \<le> Draw_setpoint d
                 \<or> Draw_setpoint d =
                      soakTemp1 p
                      + real_of_int (Draw_time d - Draw_startOfSoakTime d)
                        * (soakTemp2 p - soakTemp1 p)
                        / real_of_int (soakTime p)"
    by (simp_all add: soak_line_def)
  from later before_end have T: "0 < soakTime p" by simp
  show ?thesis
  proof (cases "Draw_setpoint d < soakTemp2 p")
    case False
    with True show ?thesis by (simp add: calculate_def Let_def)
  next
    case below: True
    with line have eq: "Draw_setpoint d =
                      soakTemp1 p
                      + real_of_int (Draw_time d - Draw_startOfSoakTime d)
                        * (soakTemp2 p - soakTemp1 p)
                        / real_of_int (soakTime p)" by simp
    have new: "Draw_setpoint (calculate p d) =
                      soakTemp1 p
                      + real_of_int (Draw_time d - Draw_startOfSoakTime d + 1)
                        * (soakTemp2 p - soakTemp1 p)
                        / real_of_int (soakTime p)"
      using True below by (simp add: calculate_def Let_def algebra_simps)
    have "0 \<le> soakTemp2 p - soakTemp1 p" using prof by simp
    then have "soakTemp1 p
                 + real_of_int (Draw_time d - Draw_startOfSoakTime d)
                   * (soakTemp2 p - soakTemp1 p) / real_of_int (soakTime p)
               \<le> Draw_setpoint (calculate p d)"
      unfolding new using T by (rule soak_step_mono)
    with eq show ?thesis by simp
  qed
qed

lemma calculate_falling:
  assumes "rampDownSlope p < 0" "Draw_state d = s_ramp_down"
  shows "Draw_setpoint (calculate p d) \<le> Draw_setpoint d"
  using assms by (simp add: calculate_def Let_def)

lemma calculate_first_soak_tick:
  assumes "Draw_state d = s_soak" "Draw_startOfSoakTime d = Draw_time d" "0 < soakTime p"
  shows "Draw_setpoint (calculate p d) =
           (if Draw_setpoint d < soakTemp2 p
            then soakTemp1 p + (soakTemp2 p - soakTemp1 p) / real_of_int (soakTime p)
            else Draw_setpoint d)"
  using assms by (simp add: calculate_def Let_def)

lemma calculate_first_soak_tick_bounds:
  assumes "Draw_state d = s_soak" "Draw_startOfSoakTime d = Draw_time d"
    and "0 < soakTime p" "soakTemp1 p < soakTemp2 p"
  shows "Draw_setpoint d < soakTemp2 p \<longrightarrow>
           soakTemp1 p \<le> Draw_setpoint (calculate p d)
           \<and> Draw_setpoint (calculate p d)
               \<le> soakTemp1 p + (soakTemp2 p - soakTemp1 p) / real_of_int (soakTime p)"
    and "soakTemp2 p \<le> Draw_setpoint d \<longrightarrow> Draw_setpoint (calculate p d) = Draw_setpoint d"
    and "soakTemp1 p + (soakTemp2 p - soakTemp1 p) / real_of_int (soakTime p) < Draw_setpoint d
           \<and> Draw_setpoint d < soakTemp2 p
         \<longrightarrow> Draw_setpoint (calculate p d) < Draw_setpoint d"
proof -
  have "0 \<le> (soakTemp2 p - soakTemp1 p) / real_of_int (soakTime p)"
    using assms(3,4) by simp
  then show "Draw_setpoint d < soakTemp2 p \<longrightarrow>
           soakTemp1 p \<le> Draw_setpoint (calculate p d)
           \<and> Draw_setpoint (calculate p d)
               \<le> soakTemp1 p + (soakTemp2 p - soakTemp1 p) / real_of_int (soakTime p)"
    using calculate_first_soak_tick [OF assms(1-3)] by simp
  show "soakTemp2 p \<le> Draw_setpoint d \<longrightarrow> Draw_setpoint (calculate p d) = Draw_setpoint d"
    using calculate_first_soak_tick [OF assms(1-3)] by simp
  show "soakTemp1 p + (soakTemp2 p - soakTemp1 p) / real_of_int (soakTime p) < Draw_setpoint d
           \<and> Draw_setpoint d < soakTemp2 p
         \<longrightarrow> Draw_setpoint (calculate p d) < Draw_setpoint d"
    using calculate_first_soak_tick [OF assms(1-3)] by simp
qed

text \<open>
  C5, amended. For every profile with \<open>soakTemp1 < soakTemp2 \<le> peakTemp\<close>, positive ramp
  slopes, a negative ramp-down slope and a positive soak time, and for the preview iterated
  from \<^verbatim>\<open>s_preheat\<close>: the setpoint does not decrease on any tick taken in \<^verbatim>\<open>s_preheat\<close>,
  \<^verbatim>\<open>s_ramp_up\<close> or \<^verbatim>\<open>s_dwell\<close>, nor on any tick taken in \<^verbatim>\<open>s_soak\<close> other than the first
  one; it does not increase on any tick taken in \<^verbatim>\<open>s_ramp_down\<close>. The first tick in
  \<^verbatim>\<open>s_soak\<close> (the one that finds the time equal to the recorded start of soak) leaves a
  setpoint at or above \<open>soakTemp2\<close> as it is and puts a setpoint below \<open>soakTemp2\<close> between
  \<open>soakTemp1\<close> and \<open>soakTemp1 + (soakTemp2 - soakTemp1) / soakTime\<close>, whatever the preheat
  ramp reached; so it lowers a setpoint that the preheat ramp left above
  \<open>soakTemp1 + (soakTemp2 - soakTemp1) / soakTime\<close> and below \<open>soakTemp2\<close>.
\<close>

theorem C5_preview_curve:
  assumes "soakTemp1 p < soakTemp2 p" and "soakTemp2 p \<le> peakTemp p"
    and "0 < ramp1Slope p" and "0 < ramp2Slope p" and "rampDownSlope p < 0"
    and "0 < soakTime p" and "Draw_state d0 = s_preheat"
  shows "(Draw_state ((calculate p ^^ n) d0) = s_preheat
          \<or> (Draw_state ((calculate p ^^ n) d0) = s_soak
              \<and> Draw_startOfSoakTime ((calculate p ^^ n) d0) < Draw_time ((calculate p ^^ n) d0))
          \<or> Draw_state ((calculate p ^^ n) d0) = s_ramp_up
          \<or> Draw_state ((calculate p ^^ n) d0) = s_dwell
          \<longrightarrow> Draw_setpoint ((calculate p ^^ n) d0) \<le> Draw_setpoint ((calculate p ^^ Suc n) d0))
       \<and> (Draw_state ((calculate p ^^ n) d0) = s_ramp_down
          \<longrightarrow> Draw_setpoint ((calculate p ^^ Suc n) d0) \<le> Draw_setpoint ((calculate p ^^ n) d0))
       \<and> (Draw_state ((calculate p ^^ n) d0) = s_soak
          \<longrightarrow> Draw_startOfSoakTime ((calculate p ^^ n) d0) \<le> Draw_time ((calculate p ^^ n) d0))
       \<and> (Draw_state ((calculate p ^^ n) d0) = s_soak
           \<and> Draw_startOfSoakTime ((calculate p ^^ n) d0) = Draw_time ((calculate p ^^ n) d0)
          \<longrightarrow> (Draw_setpoint ((calculate p ^^ n) d0) < soakTemp2 p \<longrightarrow>
                  soakTemp1 p \<le> Draw_setpoint ((calculate p ^^ Suc n) d0)
                  \<and> Draw_setpoint ((calculate p ^^ Suc n) d0)
                      \<le> soakTemp1 p + (soakTemp2 p - soakTemp1 p) / real_of_int (soakTime p))
              \<and> (soakTemp2 p \<le> Draw_setpoint ((calculate p ^^ n) d0) \<longrightarrow>
                  Draw_setpoint ((calculate p ^^ Suc n) d0) = Draw_setpoint ((calculate p ^^ n) d0))
              \<and> (soakTemp1 p + (soakTemp2 p - soakTemp1 p) / real_of_int (soakTime p)
                    < Draw_setpoint ((calculate p ^^ n) d0)
                  \<and> Draw_setpoint ((calculate p ^^ n) d0) < soakTemp2 p \<longrightarrow>
                  Draw_setpoint ((calculate p ^^ Suc n) d0)
                    < Draw_setpoint ((calculate p ^^ n) d0)))"
proof -
  define d where "d = (calculate p ^^ n) d0"
  have inv: "soak_line p d"
    unfolding d_def using assms(7) by (rule soak_line_funpow)
  have next_d: "(calculate p ^^ Suc n) d0 = calculate p d"
    by (simp add: d_def)
  have "Draw_state d = s_preheat
          \<or> (Draw_state d = s_soak \<and> Draw_startOfSoakTime d < Draw_time d)
          \<or> Draw_state d = s_ramp_up \<or> Draw_state d = s_dwell
        \<longrightarrow> Draw_setpoint d \<le> Draw_setpoint (calculate p d)"
    using calculate_rising [OF inv assms(1) assms(3) assms(4)] by blast
  moreover have "Draw_state d = s_ramp_down \<longrightarrow> Draw_setpoint (calculate p d) \<le> Draw_setpoint d"
    using calculate_falling [OF assms(5)] by blast
  moreover have "Draw_state d = s_soak \<longrightarrow> Draw_startOfSoakTime d \<le> Draw_time d"
    using inv by (simp add: soak_line_def)
  moreover have "Draw_state d = s_soak \<and> Draw_startOfSoakTime d = Draw_time d
          \<longrightarrow> (Draw_setpoint d < soakTemp2 p \<longrightarrow>
                  soakTemp1 p \<le> Draw_setpoint (calculate p d)
                  \<and> Draw_setpoint (calculate p d)
                      \<le> soakTemp1 p + (soakTemp2 p - soakTemp1 p) / real_of_int (soakTime p))
              \<and> (soakTemp2 p \<le> Draw_setpoint d \<longrightarrow>
                  Draw_setpoint (calculate p d) = Draw_setpoint d)
              \<and> (soakTemp1 p + (soakTemp2 p - soakTemp1 p) / real_of_int (soakTime p)
                    < Draw_setpoint d
                  \<and> Draw_setpoint d < soakTemp2 p \<longrightarrow>
                  Draw_setpoint (calculate p d) < Draw_setpoint d)"
    using calculate_first_soak_tick_bounds [of d p] assms(1,6) by blast
  ultimately show ?thesis
    unfolding next_d d_def [symmetric] by blast
qed

lemma example_profile_shape:
  "soakTemp1 example_profile < soakTemp2 example_profile"
  "soakTemp2 example_profile \<le> peakTemp example_profile"
  "0 < ramp1Slope example_profile" "0 < ramp2Slope example_profile"
  "rampDownSlope example_profile < 0" "0 < soakTime example_profile"
  by (simp_all add: example_profile_def)

lemma preview_18:
  "(calculate example_profile ^^ 18) (Draw_plot_start 0 0) =
     \<lparr>Draw_state = s_soak, Draw_time = 18, Draw_setpoint = 101,
      Draw_startOfSoakTime = 18, Draw_startOfDwellTime = 0\<rparr>"
  by (simp add: numeral_eq_Suc calculate_def Let_def example_profile_def Draw_plot_start_def)

lemma preview_19:
  "(calculate example_profile ^^ 19) (Draw_plot_start 0 0) =
     \<lparr>Draw_state = s_soak, Draw_time = 19, Draw_setpoint = 605 / 6,
      Draw_startOfSoakTime = 18, Draw_startOfDwellTime = 0\<rparr>"
proof -
  have "(calculate example_profile ^^ 19) (Draw_plot_start 0 0) =
          calculate example_profile ((calculate example_profile ^^ 18) (Draw_plot_start 0 0))"
    by (simp add: numeral_eq_Suc)
  then show ?thesis
    unfolding preview_18 by (simp add: calculate_def Let_def example_profile_def)
qed

text \<open>
  C5, as the spec states it: for every profile with \<open>soakTemp1 < soakTemp2 \<le> peakTemp\<close>,
  positive ramp slopes and a negative ramp-down slope the preview's setpoint never decreases
  from \<^verbatim>\<open>s_preheat\<close> to the end of \<^verbatim>\<open>s_dwell\<close>. It fails on the code: with a ramp of 3
  degrees per tick from 50 degrees the preheat ramp ends at 101, above \<open>soakTemp1 = 100\<close>,
  and the first soak tick puts the setpoint back on the soak line, at \<open>100 + 50/60\<close>
  (at 100 if the quotient were truncated).
\<close>

theorem C5_counterexample:
  "soakTemp1 example_profile < soakTemp2 example_profile
   \<and> soakTemp2 example_profile \<le> peakTemp example_profile
   \<and> 0 < ramp1Slope example_profile \<and> 0 < ramp2Slope example_profile
   \<and> rampDownSlope example_profile < 0
   \<and> Draw_state (Draw_plot_start 0 0) = s_preheat
   \<and> Draw_state ((calculate example_profile ^^ 18) (Draw_plot_start 0 0)) = s_soak
   \<and> Draw_setpoint ((calculate example_profile ^^ 19) (Draw_plot_start 0 0))
       < Draw_setpoint ((calculate example_profile ^^ 18) (Draw_plot_start 0 0))"
  unfolding preview_18 preview_19
  by (simp add: example_profile_def Draw_plot_start_def)

theorem C5_preview_curve_witness:
  "Draw_setpoint ((calculate example_profile ^^ 19) (Draw_plot_start 0 0))
     \<le> Draw_setpoint ((calculate example_profile ^^ Suc 19) (Draw_plot_start 0 0))
   \<and> Draw_setpoint ((calculate example_profile ^^ Suc 18) (Draw_plot_start 0 0))
       < Draw_setpoint ((calculate example_profile ^^ 18) (Draw_plot_start 0 0))
   \<and> soakTemp1 example_profile
       \<le> Draw_setpoint ((calculate example_profile ^^ Suc 18) (Draw_plot_start 0 0))"
proof -
  have start: "Draw_state (Draw_plot_start 0 0) = s_preheat"
    by (simp add: Draw_plot_start_def)
  note at_19 = C5_preview_curve [OF example_profile_shape start, of 19]
  note at_18 = C5_preview_curve [OF example_profile_shape start, of 18]
  have "Draw_state ((calculate example_profile ^^ 19) (Draw_plot_start 0 0)) = s_soak
        \<and> Draw_startOfSoakTime ((calculate example_profile ^^ 19) (Draw_plot_start 0 0))
            < Draw_time ((calculate example_profile ^^ 19) (Draw_plot_start 0 0))"
    unfolding preview_19 by simp
  with at_19 [THEN conjunct1]
  have rising: "Draw_setpoint ((calculate example_profile ^^ 19) (Draw_plot_start 0 0))
     \<le> Draw_setpoint ((calculate example_profile ^^ Suc 19) (Draw_plot_start 0 0))"
    by blast
  have first: "Draw_state ((calculate example_profile ^^ 18) (Draw_plot_start 0 0)) = s_soak
        \<and> Draw_startOfSoakTime ((calculate example_profile ^^ 18) (Draw_plot_start 0 0))
            = Draw_time ((calculate example_profile ^^ 18) (Draw_plot_start 0 0))"
    and below: "Draw_setpoint ((calculate example_profile ^^ 18) (Draw_plot_start 0 0))
           < soakTemp2 example_profile"
    and above: "soakTemp1 example_profile
             + (soakTemp2 example_profile - soakTemp1 example_profile)
               / real_of_int (soakTime example_profile)
           < Draw_setpoint ((calculate example_profile ^^ 18) (Draw_plot_start 0 0))"
    unfolding preview_18 by (simp_all add: example_profile_def)
  note tick = at_18 [THEN conjunct2, THEN conjunct2, THEN conjunct2, rule_format, OF first]
  from tick below above
  have "Draw_setpoint ((calculate example_profile ^^ Suc 18) (Draw_plot_start 0 0))
       < Draw_setpoint ((calculate example_profile ^^ 18) (Draw_plot_start 0 0))"
    and "soakTemp1 example_profile
       \<le> Draw_setpoint ((calculate example_profile ^^ Suc 18) (Draw_plot_start 0 0))"
    by blast+
  with rising show ?thesis by blast
qed

subsection \<open>Preview and executor\<close>

lemma agree_cooling: "agree cooling cooling_preview"
  by (simp add: agree_def cooling_def cooling_preview_def)

lemma agree_soaking: "agree soaking soaking_preview"
  by (simp add: agree_def soaking_def soaking_preview_def)

text \<open>
  C6, as the spec states it: from the same values, one tick of the preview and one tick of
  the executor make the same setpoint update, and the phases differ only in that the
  executor waits for the measured temperature or fails. It fails on the code in
  \<^verbatim>\<open>s_ramp_down\<close>: the preview ramps down to the constant 50 and then ends in \<^verbatim>\<open>s_off\<close>,
  the executor ramps down to the ambient temperature and ends in \<^verbatim>\<open>s_complete\<close>.
\<close>

theorem C6_counterexample:
  "agree cooling cooling_preview
   \<and> \<not> same_up_to_feedback example_profile 30 cooling cooling_preview
   \<and> setpoint (fst (handler example_profile 30 cooling)) = 38
   \<and> Draw_setpoint (calculate example_profile cooling_preview) = 40
   \<and> state (fst (handler example_profile 30 cooling)) = s_ramp_down
   \<and> Draw_state (calculate example_profile cooling_preview) = s_off
   \<and> state (fst (handler example_profile 20 cooling)) = s_complete"
  by (simp add: agree_cooling same_up_to_feedback_def)
     (simp add: cooling_def cooling_preview_def handler_def handler_ramp_down_def
        calculate_def example_profile_def Let_def)

lemma same_in_preheat:
  assumes "agree e d" "state e = s_preheat"
  shows "same_up_to_feedback p T e d"
  using assms
  by (simp add: agree_def same_up_to_feedback_def handler_def handler_preheat_def
      calculate_def Let_def)

lemma same_in_soak:
  assumes "agree e d" "state e = s_soak"
  shows "same_up_to_feedback p T e d"
  using assms
  by (simp add: agree_def same_up_to_feedback_def handler_def handler_soak_def
      calculate_def Let_def)

lemma same_in_ramp_up:
  assumes "agree e d" "state e = s_ramp_up"
  shows "same_up_to_feedback p T e d"
  using assms
  by (simp add: agree_def same_up_to_feedback_def handler_def handler_ramp_up_def
      calculate_def Let_def)

lemma same_in_dwell:
  assumes "agree e d" "state e = s_dwell"
  shows "same_up_to_feedback p T e d
         \<and> state (fst (handler p T e)) = Draw_state (calculate p d)"
  using assms
  by (simp add: agree_def same_up_to_feedback_def handler_def handler_dwell_def
      calculate_def Let_def)

lemma executor_not_ahead:
  assumes "agree e d"
  shows "state e = s_preheat \<and> state (fst (handler p T e)) = s_soak
           \<longrightarrow> Draw_state (calculate p d) = s_soak"
    and "state e = s_soak \<and> state (fst (handler p T e)) = s_ramp_up
           \<longrightarrow> Draw_state (calculate p d) = s_ramp_up"
  using assms
  by (auto simp: agree_def handler_def handler_preheat_def handler_soak_def
      calculate_def Let_def split: if_splits)

lemma ramp_down_executor:
  assumes "state e = s_ramp_down"
  shows "setpoint (fst (handler p T e)) =
           (if ambient e < setpoint e then setpoint e + rampDownSlope p else setpoint e)"
    and "state (fst (handler p T e)) = (if T < ambient e then s_complete else s_ramp_down)"
  using assms by (simp_all add: handler_def handler_ramp_down_def Let_def)

lemma ramp_down_preview:
  assumes "Draw_state d = s_ramp_down"
  shows "Draw_setpoint (calculate p d) =
           (if 50 < Draw_setpoint d then Draw_setpoint d + rampDownSlope p else Draw_setpoint d)"
    and "Draw_state (calculate p d) = (if 50 < Draw_setpoint d then s_ramp_down else s_off)"
  using assms by (simp_all add: calculate_def Let_def)

text \<open>
  C6, amended. From the same values of the shared variables, in \<^verbatim>\<open>s_preheat\<close>, \<^verbatim>\<open>s_soak\<close>,
  \<^verbatim>\<open>s_ramp_up\<close> and \<^verbatim>\<open>s_dwell\<close> one tick of the preview and one tick of the executor make
  the same setpoint update; the preview stays or moves to the next phase, the executor
  stays, moves to the next phase or fails; in \<^verbatim>\<open>s_dwell\<close> both reach the same state, and in
  \<^verbatim>\<open>s_preheat\<close> and \<^verbatim>\<open>s_soak\<close> the executor moves on only on a tick on which the preview
  does. In \<^verbatim>\<open>s_ramp_down\<close> the two differ: the executor lowers the setpoint while it is
  above the ambient temperature and ends in \<^verbatim>\<open>s_complete\<close> when the measured temperature is
  below ambient; the preview lowers the setpoint while it is above 50 and then ends in
  \<^verbatim>\<open>s_off\<close>.
\<close>

theorem C6_preview_and_executor:
  assumes "agree e d"
  shows "(state e = s_preheat \<or> state e = s_soak \<or> state e = s_ramp_up \<or> state e = s_dwell
            \<longrightarrow> same_up_to_feedback p T e d)
       \<and> (state e = s_dwell \<longrightarrow> state (fst (handler p T e)) = Draw_state (calculate p d))
       \<and> (state e = s_preheat \<and> state (fst (handler p T e)) = s_soak
            \<longrightarrow> Draw_state (calculate p d) = s_soak)
       \<and> (state e = s_soak \<and> state (fst (handler p T e)) = s_ramp_up
            \<longrightarrow> Draw_state (calculate p d) = s_ramp_up)
       \<and> (state e = s_ramp_down \<longrightarrow>
            setpoint (fst (handler p T e)) =
              (if ambient e < setpoint e then setpoint e + rampDownSlope p else setpoint e)
            \<and> Draw_setpoint (calculate p d) =
              (if 50 < setpoint e then setpoint e + rampDownSlope p else setpoint e)
            \<and> state (fst (handler p T e)) = (if T < ambient e then s_complete else s_ramp_down)
            \<and> Draw_state (calculate p d) = (if 50 < setpoint e then s_ramp_down else s_off)
            \<and> time (fst (handler p T e)) = Draw_time (calculate p d))"
proof (intro conjI impI)
  assume "state e = s_preheat \<or> state e = s_soak \<or> state e = s_ramp_up \<or> state e = s_dwell"
  then show "same_up_to_feedback p T e d"
    using assms same_in_preheat same_in_soak same_in_ramp_up same_in_dwell by blast
next
  assume "state e = s_dwell"
  then show "state (fst (handler p T e)) = Draw_state (calculate p d)"
    using assms same_in_dwell by blast
next
  assume "state e = s_preheat \<and> state (fst (handler p T e)) = s_soak"
  then show "Draw_state (calculate p d) = s_soak"
    using executor_not_ahead(1) [OF assms] by blast
next
  assume "state e = s_soak \<and> state (fst (handler p T e)) = s_ramp_up"
  then show "Draw_state (calculate p d) = s_ramp_up"
    using executor_not_ahead(2) [OF assms] by blast
next
  assume rd: "state e = s_ramp_down"
  with assms have rd': "Draw_state d = s_ramp_down" and sp: "Draw_setpoint d = setpoint e"
    and tm: "Draw_time d = time e"
    by (simp_all add: agree_def)
  show "setpoint (fst (handler p T e)) =
              (if ambient e < setpoint e then setpoint e + rampDownSlope p else setpoint e)"
    using rd by (rule ramp_down_executor)
  show "Draw_setpoint (calculate p d) =
              (if 50 < setpoint e then setpoint e + rampDownSlope p else setpoint e)"
    using ramp_down_preview(1) [OF rd'] sp by simp
  show "state (fst (handler p T e)) = (if T < ambient e then s_complete else s_ramp_down)"
    using rd by (rule ramp_down_executor)
  show "Draw_state (calculate p d) = (if 50 < setpoint e then s_ramp_down else s_off)"
    using ramp_down_preview(2) [OF rd'] sp by simp
  show "time (fst (handler p T e)) = Draw_time (calculate p d)"
    using rd rd' tm by (simp add: handler_def handler_ramp_down_def calculate_def Let_def)
qed

theorem C6_preview_and_executor_witness:
  "same_up_to_feedback example_profile 120 soaking soaking_preview
   \<and> setpoint (fst (handler example_profile 30 cooling)) = 38
   \<and> Draw_setpoint (calculate example_profile cooling_preview) = 40
   \<and> state (fst (handler example_profile 30 cooling)) = s_ramp_down
   \<and> Draw_state (calculate example_profile cooling_preview) = s_off"
proof -
  have s: "state soaking = s_soak" by (simp add: soaking_def)
  have c: "state cooling = s_ramp_down" "setpoint cooling = 40" "ambient cooling = 25"
    by (simp_all add: cooling_def)
  have r: "rampDownSlope example_profile = - 2" by (simp add: example_profile_def)
  show ?thesis
    using C6_preview_and_executor [OF agree_soaking, of example_profile 120]
      C6_preview_and_executor [OF agree_cooling, of example_profile 30] s c r
    by simp
qed

subsection \<open>Soak timeout\<close>

lemma handler_time: "time (fst (handler p T e)) = time e + 1"
  by (cases "state e")
     (simp_all add: handler_def handler_preheat_def handler_soak_def handler_ramp_up_def
        handler_dwell_def handler_ramp_down_def Let_def split: prod.splits)

lemma ticks_time: "time (ticks p Ts e) = time e + int (length Ts)"
  by (induction Ts arbitrary: e) (simp_all add: handler_time)

lemma handler_soak_overdue:
  assumes "state e = s_soak" and "startOfSoakTime e + soakTime p \<le> time e + 1"
    and "T < soakTemp2 p - 5"
  shows "timeout (fst (handler p T e)) = (if setpoint e < soakTemp2 p then 0 else timeout e) + 1"
    and "state (fst (handler p T e)) =
           (if 40 < timeout (fst (handler p T e)) then s_fail else s_soak)"
  using assms
  by (simp_all add: handler_def handler_soak_def Let_def delta_def)

lemma soak_line_end:
  fixes k T :: int and c T1 :: real
  assumes "0 \<le> c" "0 < T" "T \<le> k"
  shows "T1 + c \<le> T1 + real_of_int k * c / real_of_int T"
proof -
  have "real_of_int T * c \<le> real_of_int k * c"
    using assms by (simp add: mult_right_mono)
  then have "c * real_of_int T \<le> real_of_int k * c"
    by (simp add: mult.commute)
  then have "c \<le> real_of_int k * c / real_of_int T"
    using assms by (simp add: pos_le_divide_eq)
  then show ?thesis by simp
qed

lemma soak_wait_handler:
  assumes inv: "soak_wait p start due e"
    and due: "start + soakTime p \<le> due"
    and prof: "soakTemp1 p < soakTemp2 p" "0 < soakTime p"
    and cold: "T < soakTemp2 p - 5"
  shows "soak_wait p start due (fst (handler p T e))"
proof (cases "state e = s_fail")
  case True
  with inv show ?thesis
    by (simp add: soak_wait_def handler_def)
next
  case False
  with inv have st: "state e = s_soak" and so: "startOfSoakTime e = start"
    and nonneg: "0 \<le> timeout e"
    and late: "due \<le> time e \<Longrightarrow>
                 soakTemp2 p \<le> setpoint e \<and> time e - due + 1 \<le> timeout e \<and> timeout e \<le> 40"
    by (auto simp: soak_wait_def)
  show ?thesis
  proof (cases "due \<le> time e")
    case True
    with late have "soakTemp2 p \<le> setpoint e" "time e - due + 1 \<le> timeout e" by simp_all
    with st so due cold True show ?thesis
      by (simp add: soak_wait_def handler_def handler_soak_def Let_def delta_def)
  next
    case early: False
    show ?thesis
    proof (cases "due \<le> time e + 1")
      case False
      with st so nonneg cold show ?thesis
        by (simp add: soak_wait_def handler_def handler_soak_def Let_def delta_def)
    next
      case True
      with early have now: "time e + 1 = due" by simp
      have "soakTemp1 p + (soakTemp2 p - soakTemp1 p)
              \<le> soakTemp1 p + real_of_int (due - start) * (soakTemp2 p - soakTemp1 p)
                               / real_of_int (soakTime p)"
        using prof due by (intro soak_line_end) simp_all
      then have reach: "soakTemp2 p
              \<le> soakTemp1 p + (real_of_int due - real_of_int start)
                               * (soakTemp2 p - soakTemp1 p) / real_of_int (soakTime p)"
        by simp
      from st so nonneg cold due now reach show ?thesis
        by (simp add: soak_wait_def handler_def handler_soak_def Let_def delta_def)
    qed
  qed
qed

lemma soak_wait_ticks:
  assumes "soak_wait p start due e"
    and "start + soakTime p \<le> due"
    and "soakTemp1 p < soakTemp2 p" "0 < soakTime p"
    and "\<forall>T\<in>set Ts. T < soakTemp2 p - 5"
  shows "soak_wait p start due (ticks p Ts e)"
  using assms
proof (induction Ts arbitrary: e)
  case Nil
  then show ?case by simp
next
  case (Cons T Ts)
  from Cons.prems have "soak_wait p start due (fst (handler p T e))"
    by (intro soak_wait_handler) simp_all
  with Cons show ?case by simp
qed

lemma soak_wait_fail:
  assumes "soak_wait p start due e" "due + 40 \<le> time e"
  shows "state e = s_fail \<and> 40 < timeout e"
  using assms by (auto simp: soak_wait_def)

lemma soak_timeout_run:
  assumes st: "state e = s_soak"
    and prof: "soakTemp1 p < soakTemp2 p" "0 < soakTime p"
    and nonneg: "0 \<le> timeout e"
    and cold: "\<forall>T\<in>set Ts. T < soakTemp2 p - 5"
    and long: "max (startOfSoakTime e + soakTime p) (time e + 1) + 40 \<le> time e + int (length Ts)"
  shows "state (ticks p Ts e) = s_fail \<and> 40 < timeout (ticks p Ts e)"
proof -
  define due where "due = max (startOfSoakTime e + soakTime p) (time e + 1)"
  have "soak_wait p (startOfSoakTime e) due e"
    using st nonneg by (simp add: soak_wait_def due_def)
  moreover have "startOfSoakTime e + soakTime p \<le> due"
    by (simp add: due_def)
  ultimately have "soak_wait p (startOfSoakTime e) due (ticks p Ts e)"
    using prof cold by (rule soak_wait_ticks)
  moreover have "due + 40 \<le> time (ticks p Ts e)"
    using long by (simp add: ticks_time due_def)
  ultimately show ?thesis by (rule soak_wait_fail)
qed

text \<open>
  C2. The executor is in \<^verbatim>\<open>s_soak\<close> and the measured temperature stays below the relaxed
  threshold \<open>soakTemp2 - 5\<close>. A tick at or after \<open>startOfSoakTime + soakTime\<close> then
  increments the timeout counter (from 0 if the setpoint was still below \<open>soakTemp2\<close>) and
  moves to \<^verbatim>\<open>s_fail\<close> exactly when the counter exceeds 40. For a profile with
  \<open>soakTemp1 < soakTemp2\<close> and a positive soak time, the executor is in \<^verbatim>\<open>s_fail\<close>, with the
  counter above 40, at every tick from 40 ticks after the first tick at or after the end of
  the soak time. For \<open>soakTemp1 = 100\<close>, \<open>soakTemp2 = 150\<close>, \<open>soakTime = 60\<close> and a soak
  entered at tick 30, the state at tick 135 is \<^verbatim>\<open>s_fail\<close>.
\<close>

theorem C2_soak_timeout:
  assumes "state e = s_soak" and "T < soakTemp2 p - 5" and "\<forall>T\<in>set Ts. T < soakTemp2 p - 5"
  shows "(startOfSoakTime e + soakTime p \<le> time e + 1 \<longrightarrow>
            timeout (fst (handler p T e)) =
              (if setpoint e < soakTemp2 p then 0 else timeout e) + 1
            \<and> state (fst (handler p T e)) =
                (if 40 < timeout (fst (handler p T e)) then s_fail else s_soak))
       \<and> (soakTemp1 p < soakTemp2 p \<and> 0 < soakTime p \<and> 0 \<le> timeout e
          \<and> max (startOfSoakTime e + soakTime p) (time e + 1) + 40 \<le> time e + int (length Ts)
          \<longrightarrow> state (ticks p Ts e) = s_fail \<and> 40 < timeout (ticks p Ts e))
       \<and> (soakTemp1 p = 100 \<and> soakTemp2 p = 150 \<and> soakTime p = 60
          \<and> time e = 30 \<and> startOfSoakTime e = 30 \<and> 0 \<le> timeout e \<and> length Ts = 105
          \<longrightarrow> state (ticks p Ts e) = s_fail \<and> time (ticks p Ts e) = 135)"
proof (intro conjI impI)
  assume "startOfSoakTime e + soakTime p \<le> time e + 1"
  with assms(1) show "timeout (fst (handler p T e)) =
              (if setpoint e < soakTemp2 p then 0 else timeout e) + 1"
    and "state (fst (handler p T e)) =
                (if 40 < timeout (fst (handler p T e)) then s_fail else s_soak)"
    using assms(2) by (rule handler_soak_overdue)+
next
  assume a: "soakTemp1 p < soakTemp2 p \<and> 0 < soakTime p \<and> 0 \<le> timeout e
          \<and> max (startOfSoakTime e + soakTime p) (time e + 1) + 40 \<le> time e + int (length Ts)"
  then have "state (ticks p Ts e) = s_fail \<and> 40 < timeout (ticks p Ts e)"
    using assms(1,3) by (intro soak_timeout_run) simp_all
  then show "state (ticks p Ts e) = s_fail" and "40 < timeout (ticks p Ts e)" by simp_all
next
  assume a: "soakTemp1 p = 100 \<and> soakTemp2 p = 150 \<and> soakTime p = 60
          \<and> time e = 30 \<and> startOfSoakTime e = 30 \<and> 0 \<le> timeout e \<and> length Ts = 105"
  then have "state (ticks p Ts e) = s_fail \<and> 40 < timeout (ticks p Ts e)"
    using assms(1,3) by (intro soak_timeout_run) simp_all
  then show "state (ticks p Ts e) = s_fail" by simp
  show "time (ticks p Ts e) = 135"
    using a by (simp add: ticks_time)
qed

text \<open>
  The scenario from the start of the run: at an ambient temperature of 25 degrees the
  setpoint reaches \<open>soakTemp1\<close> at tick 25, the measured temperature reaches 100 degrees
  at tick 30, and it then stays below 145 degrees up to tick 135.
\<close>

lemma scenario_enters_soak:
  "ticks example_profile (replicate 29 20 @ [100]) run_start = soak_entered"
  by (simp add: numeral_eq_Suc run_start_def soak_entered_def handler_def handler_preheat_def
      example_profile_def delta_def Let_def)

lemma scenario_fails:
  assumes "length Ts = 105" "\<forall>T\<in>set Ts. T < 145"
  shows "state (ticks example_profile (replicate 29 20 @ [100] @ Ts) run_start) = s_fail"
    and "time (ticks example_profile (replicate 29 20 @ [100] @ Ts) run_start) = 135"
proof -
  have split: "ticks example_profile (replicate 29 20 @ [100] @ Ts) run_start
                 = ticks example_profile Ts soak_entered"
    using ticks_append [of example_profile "replicate 29 20 @ [100]" Ts run_start]
    by (simp add: scenario_enters_soak)
  have "state (ticks example_profile Ts soak_entered) = s_fail
        \<and> 40 < timeout (ticks example_profile Ts soak_entered)"
    using assms by (intro soak_timeout_run) (simp_all add: soak_entered_def example_profile_def)
  then show "state (ticks example_profile (replicate 29 20 @ [100] @ Ts) run_start) = s_fail"
    by (simp only: split)
  show "time (ticks example_profile (replicate 29 20 @ [100] @ Ts) run_start) = 135"
    unfolding split using assms by (simp add: ticks_time soak_entered_def)
qed

theorem C2_soak_timeout_witness:
  "state (fst (handler example_profile 120 soak_overdue)) = s_fail
   \<and> timeout (fst (handler example_profile 120 soak_overdue)) = 41
   \<and> state (ticks example_profile (replicate 105 120) soak_entered) = s_fail
   \<and> time (ticks example_profile (replicate 105 120) soak_entered) = 135"
proof -
  have cold: "(120::real) < soakTemp2 example_profile - 5"
      "\<forall>T\<in>set (replicate 105 (120::real)). T < soakTemp2 example_profile - 5"
    by (simp_all add: example_profile_def)
  have o: "state soak_overdue = s_soak"
      "startOfSoakTime soak_overdue + soakTime example_profile \<le> time soak_overdue + 1"
      "\<not> setpoint soak_overdue < soakTemp2 example_profile" "timeout soak_overdue = 40"
    by (simp_all add: soak_overdue_def example_profile_def)
  have n: "state soak_entered = s_soak"
      "soakTemp1 example_profile = 100 \<and> soakTemp2 example_profile = 150
       \<and> soakTime example_profile = 60 \<and> time soak_entered = 30
       \<and> startOfSoakTime soak_entered = 30 \<and> 0 \<le> timeout soak_entered
       \<and> length (replicate 105 (120::real)) = 105"
    by (simp_all add: soak_entered_def example_profile_def)
  note overdue = C2_soak_timeout [OF o(1) cold, THEN conjunct1, rule_format, OF o(2)]
  note entered = C2_soak_timeout [OF n(1) cold, THEN conjunct2, THEN conjunct2, rule_format, OF n(2)]
  from overdue o(3,4) have "timeout (fst (handler example_profile 120 soak_overdue)) = 41"
    by simp
  with overdue entered show ?thesis by simp
qed

subsection \<open>Disabled channels\<close>

text \<open>
  \<^verbatim>\<open>getEnabledReading\<close> reports 0 for a disabled channel, while \<^verbatim>\<open>getReading\<close> reports the
  probe's temperature for it. \<^verbatim>\<open>thermocoupleStatus\<close> records what \<^verbatim>\<open>getReading\<close> reports,
  whatever the status, and formats 0 for every channel that is not enabled.
\<close>

lemma getEnabledReading_disabled:
  "r_status (getEnabledReading s) = TH_DISABLED \<Longrightarrow>
   r_temperature (getEnabledReading s) = Some 0"
  by (simp add: getEnabledReading_def Let_def split: if_splits)

lemma getEnabledReading_status: "r_status (getEnabledReading s) = r_status (getReading s)"
  by (simp add: getEnabledReading_def Let_def)

lemma reading_25:
  "getReading disabled_sensor =
     \<lparr>r_temperature = Some 25, r_coldReference = Some 25, r_status = TH_DISABLED\<rparr>"
  "getReading enabled_sensor =
     \<lparr>r_temperature = Some 25, r_coldReference = Some 25, r_status = TH_ENABLED\<rparr>"
  by (simp_all add: getReading_def disabled_sensor_def enabled_sensor_def int16_of_def Let_def)

lemma replicate4: "replicate NUM_THERMOCOUPLES x = [x, x, x, x]"
  by (simp add: NUM_THERMOCOUPLES_def numeral_eq_Suc)

lemma scan_25:
  "thermocoupleStatus [disabled_sensor, enabled_sensor, enabled_sensor, enabled_sensor] =
     \<lparr>temperatures = [Some 25, Some 25, Some 25, Some 25], scan_active = 14,
      formatted = [Some 0, Some 25, Some 25, Some 25]\<rparr>"
  by (simp add: thermocoupleStatus_def upt4 replicate4 scan_body_def reading_25 Let_def)

lemma low3:
  fixes x :: int
  assumes "0 \<le> x" "x \<le> 7" "x AND 1 = 0" "x AND 2 = 0" "x AND 4 = 0"
  shows "x = 0"
proof -
  from assms(1,2) have "x = 0 \<or> x = 1 \<or> x = 2 \<or> x = 3 \<or> x = 4 \<or> x = 5 \<or> x = 6 \<or> x = 7"
    by arith
  with assms(3-5) show ?thesis by auto
qed

lemma getReading_disabled_valid:
  assumes "r_status (getReading s) = TH_DISABLED"
  shows "r_temperature (getReading s) =
           Some (real_of_int (int16_of (rx0 s) (rx1 s) div 4) / 4 + real_of_int (offset s))"
proof -
  have range: "0 \<le> uint (rx3 s AND 0x07)" "uint (rx3 s AND 0x07) \<le> 7"
    by (simp_all add: uint_and)
  have "uint (rx3 s AND 0x07) = 0"
    using assms range low3 [OF range]
    by (auto simp: getReading_def Let_def split: if_splits)
  then show ?thesis
    using assms by (simp add: getReading_def Let_def)
qed

lemma thermocoupleStatus_records_reading:
  assumes "t < NUM_THERMOCOUPLES"
  shows "temperatures (thermocoupleStatus sensors) ! t = r_temperature (getReading (sensors ! t))"
proof -
  from assms have "t = 0 \<or> t = 1 \<or> t = 2 \<or> t = 3"
    by (auto simp: NUM_THERMOCOUPLES_def)
  then show ?thesis
    by (auto simp: thermocoupleStatus_def upt4 replicate4 scan_body_def Let_def)
qed

lemma thermocoupleStatus_formats_zero:
  assumes "t < NUM_THERMOCOUPLES" "r_status (getReading (sensors ! t)) \<noteq> TH_ENABLED"
  shows "formatted (thermocoupleStatus sensors) ! t = Some 0"
proof -
  have code: "status_code (r_status (getReading (sensors ! t))) AND 0x7 \<noteq> 0"
    using assms(2) by (cases "r_status (getReading (sensors ! t))") simp_all
  from assms have "t = 0 \<or> t = 1 \<or> t = 2 \<or> t = 3"
    by (auto simp: NUM_THERMOCOUPLES_def)
  then show ?thesis
    using code
    by (auto simp: thermocoupleStatus_def upt4 replicate4 scan_body_def Let_def)
qed

text \<open>
  C8 on the code, at one input: channel 0 is disabled and its probe reads 25 degrees,
  channels 1 to 3 are enabled. \<^verbatim>\<open>getReading\<close> reports \<^verbatim>\<open>TH_DISABLED\<close> with the reading,
  \<^verbatim>\<open>getEnabledReading\<close> reports 0 for it, and \<^verbatim>\<open>thermocoupleStatus\<close> hands 25, not 0, for
  channel 0 to the plot: the 0 only reaches the unused buffer. The mask leaves channel 0
  out, so the average does not include it.
\<close>

theorem C8_disabled_channel_recorded:
  "r_status (getReading disabled_sensor) = TH_DISABLED
   \<and> r_temperature (getEnabledReading disabled_sensor) = Some 0
   \<and> temperatures (thermocoupleStatus
        [disabled_sensor, enabled_sensor, enabled_sensor, enabled_sensor]) ! 0 = Some 25
   \<and> formatted (thermocoupleStatus
        [disabled_sensor, enabled_sensor, enabled_sensor, enabled_sensor]) ! 0 = Some 0
   \<and> scan_active (thermocoupleStatus
        [disabled_sensor, enabled_sensor, enabled_sensor, enabled_sensor]) = 0x0E"
  by (simp add: scan_25 reading_25 getEnabledReading_def)

end
